theory Spec2Isabelle
  imports Main
begin

section \<open>Data model (core/types.ts)\<close>

text \<open>
  Tokens, flag names and argument names are JavaScript strings. They are modelled as
  \<open>string\<close>, restricted to the ASCII range: \<open>trim\<close> strips the ASCII white space
  characters and \<open>toUpperCase\<close> maps \<open>a..z\<close> to \<open>A..Z\<close> and leaves every other
  character alone.

  A value that the parser writes into a result is \<open>undefined\<close>, a boolean, a string or
  an array of strings. The TypeScript declarations give \<open>default\<close> the type
  \<open>string | string[]\<close>; it is absent when the field is \<open>None\<close>. Reading a key of a
  result can give two more kinds of value, which come from the prototype chain of the
  object: a number (the \<open>length\<close> of an array) and a member of a built-in prototype
  object (a function or, for \<open>__proto__\<close>, the object \<open>Object.prototype\<close>), known here
  by its name.
\<close>

datatype jsval =
  VUndefined | VBool bool | VStr string | VArr "string list" | VNumber nat | VMember string

datatype CommandOptionKind = Flag | Value | Inline | Variadic

datatype CommandArgumentKind = ArgValue | ArgVariadic

text \<open>The \<open>description\<close> fields are read by the help renderer only and are left out.\<close>

record CommandOption =
  longFlag :: string
  optKind :: CommandOptionKind
  shortFlag :: "string option"
  optDefault :: "jsval option"
  optChoices :: "string list option"
  optOptional :: bool

record CommandArgument =
  argName :: string
  argKind :: CommandArgumentKind
  argDefault :: "jsval option"
  argChoices :: "string list option"
  argOptional :: bool

text \<open>
  \<open>CommandConfig\<close>: a handler is an opaque callback, identified here by a number.
  \<open>hidden\<close> is the record \<open>{help, version}\<close> of two booleans.
\<close>

datatype config = Config
  (cfg_name: string)
  (cfg_version: string)
  (cfg_hidden_help: bool)
  (cfg_hidden_version: bool)
  (cfg_aliases: "string list")
  (cfg_options: "CommandOption list")
  (cfg_arguments: "CommandArgument list")
  (cfg_handlers: "nat list")
  (cfg_subcommands: "config list")

text \<open>
  \<open>ParseInput\<close> (helpers/parse/index.ts): two objects keyed by strings and a token
  list. Each object is created by the literal \<open>{}\<close> and is a map from its own keys to
  their values. The source never gives such an object an own property \<open>__proto__\<close>
  (every write to it is an assignment, see \<open>setProp\<close> below), so the entry of the map at
  that key is free; it holds the array that an assignment has made the prototype of the
  object, and is absent as long as the prototype is \<open>Object.prototype\<close>.
\<close>

record ParseInput =
  args :: "string \<rightharpoonup> jsval"
  options :: "string \<rightharpoonup> jsval"
  unparsed :: "string list"

text \<open>The \<open>variant\<close> parameters that only choose the wording of an error message.\<close>

datatype NameVariant = CommandName | AliasName | ArgumentName

datatype FlagVariant = LongFlag | ShortFlag

datatype FieldVariant = ArgumentField | OptionField

text \<open>
  \<open>CommandError\<close>: one constructor for each place where the source throws, holding the
  values its message is built from.
\<close>

datatype error =
    CommandNameRequired
  | BadNameFormat NameVariant string
  | DuplicateAlias string
  | ArgumentNameRequired
  | DuplicateArgumentName string
  | ArgumentDefaultNotInChoices string
  | ArgumentDefaultButRequired string
  | ArgumentDefaultIsArray string
  | LongFlagRequired
  | InvalidFlag FlagVariant string
  | DuplicateLongFlag string
  | DuplicateShortFlag string
  | OptionDefaultNotInChoices string
  | OptionDefaultButRequired string
  | SubcommandNameRequired
  | DuplicateSubcommandName string
  | UnknownOption string
  | UnexpectedOption string
  | UnexpectedArgument jsval
  | RequiredOptionMissing string
  | RequiredArgumentMissing string
  | ValueNotInChoices FieldVariant jsval string

section \<open>JavaScript primitives used by the source\<close>

text \<open>Truthiness of a value: \<open>undefined\<close>, \<open>false\<close> and the empty string are falsy.\<close>

fun truthy :: "jsval \<Rightarrow> bool" where
  "truthy VUndefined = False"
| "truthy (VBool b) = b"
| "truthy (VStr s) = (s \<noteq> [])"
| "truthy (VArr xs) = True"
| "truthy (VNumber n) = (n \<noteq> 0)"
| "truthy (VMember m) = True"

fun isArray :: "jsval \<Rightarrow> bool" where
  "isArray (VArr xs) = True"
| "isArray v = False"

text \<open>
  The names of the members of \<open>Object.prototype\<close> (ECMAScript with its Annex B, as in
  Node.js and in browsers) and of \<open>Array.prototype\<close> (ECMAScript 2023).
\<close>

definition objectPrototypeMembers :: "string list" where
  "objectPrototypeMembers =
     [''constructor'', ''hasOwnProperty'', ''isPrototypeOf'', ''propertyIsEnumerable'',
      ''toLocaleString'', ''toString'', ''valueOf'', ''__proto__'', ''__defineGetter__'',
      ''__defineSetter__'', ''__lookupGetter__'', ''__lookupSetter__'']"

definition arrayPrototypeMembers :: "string list" where
  "arrayPrototypeMembers =
     [''length'', ''constructor'', ''at'', ''concat'', ''copyWithin'', ''entries'', ''every'',
      ''fill'', ''filter'', ''find'', ''findIndex'', ''findLast'', ''findLastIndex'', ''flat'',
      ''flatMap'', ''forEach'', ''includes'', ''indexOf'', ''join'', ''keys'', ''lastIndexOf'',
      ''map'', ''pop'', ''push'', ''reduce'', ''reduceRight'', ''reverse'', ''shift'', ''slice'',
      ''some'', ''sort'', ''splice'', ''toLocaleString'', ''toReversed'', ''toSorted'',
      ''toSpliced'', ''toString'', ''unshift'', ''values'', ''with'']"

text \<open>A key that is an array index: a decimal numeral without a leading zero.\<close>

definition digitValue :: "char \<Rightarrow> nat" where
  "digitValue c = (case map_of (zip ''0123456789'' [0, 1, 2, 3, 4, 5, 6, 7, 8, 9]) c of None \<Rightarrow> 0 | Some d \<Rightarrow> d)"

definition arrayIndex :: "string \<Rightarrow> nat option" where
  "arrayIndex key =
     (if key = [] then None
      else if list_ex (\<lambda>c. c \<notin> set ''0123456789'') key then None
      else if 1 < length key \<and> hd key = CHR ''0'' then None
      else Some (foldl (\<lambda>n c. 10 * n + digitValue c) 0 key))"

text \<open>
  What a key that is not an own property reads as, through the prototype chain. The
  prototype is \<open>Object.prototype\<close> (\<open>None\<close>) or an array, whose own properties are its
  indices and its \<open>length\<close> and whose prototype is \<open>Array.prototype\<close>.
\<close>

definition inherited :: "string list option \<Rightarrow> string \<Rightarrow> jsval" where
  "inherited proto key =
     (case proto of
        None \<Rightarrow> if key \<in> set objectPrototypeMembers then VMember key else VUndefined
      | Some xs \<Rightarrow>
         (case arrayIndex key of
            Some i \<Rightarrow> if i < length xs then VStr (xs ! i) else VUndefined
          | None \<Rightarrow>
              if key = ''length'' then VNumber (length xs)
              else if key \<in> set arrayPrototypeMembers \<or> key \<in> set objectPrototypeMembers
                then VMember key
              else VUndefined))"

definition prototypeOf :: "(string \<rightharpoonup> jsval) \<Rightarrow> string list option" where
  "prototypeOf obj = (case obj ''__proto__'' of Some (VArr xs) \<Rightarrow> Some xs | _ \<Rightarrow> None)"

text \<open>
  Reading a property, \<open>obj[key]\<close>: the own property if there is one, else what the
  prototype chain gives. For the key \<open>__proto__\<close> this is the getter of
  \<open>Object.prototype\<close>, which returns the prototype of the object.
\<close>

definition getProp :: "(string \<rightharpoonup> jsval) \<Rightarrow> string \<Rightarrow> jsval" where
  "getProp obj key = (case obj key of None \<Rightarrow> inherited (prototypeOf obj) key | Some v \<Rightarrow> v)"

text \<open>
  Writing a property by assignment, \<open>obj[key] = v\<close>: the members of the built-in
  prototypes are writable data properties, so the assignment makes an own property; but
  \<open>__proto__\<close> is an accessor of \<open>Object.prototype\<close>, and its setter makes \<open>v\<close> the
  prototype of the object when \<open>v\<close> is an object and does nothing otherwise. Of the
  values the parser writes only an array is an object.
\<close>

definition setProp :: "(string \<rightharpoonup> jsval) \<Rightarrow> string \<Rightarrow> jsval \<Rightarrow> (string \<rightharpoonup> jsval)" where
  "setProp obj key v =
     (if key = ''__proto__'' then (if isArray v then obj(key \<mapsto> v) else obj)
      else obj(key \<mapsto> v))"

text \<open>
  \<open>Object.assign(target, source)\<close> for a source built by an object literal with computed
  keys, whose entries are all own properties: each one is assigned to the target.
\<close>

definition objectAssign :: "(string \<rightharpoonup> jsval) \<Rightarrow> (string \<rightharpoonup> jsval) \<Rightarrow> (string \<rightharpoonup> jsval)" where
  "objectAssign target source =
     (\<lambda>key. case source key of None \<Rightarrow> target key | Some v \<Rightarrow> setProp target key v key)"

text \<open>Truthiness of an optional field of a declaration (\<open>if (arg.default)\<close>).\<close>

definition given :: "jsval option \<Rightarrow> bool" where
  "given d = (case d of None \<Rightarrow> False | Some v \<Rightarrow> truthy v)"

text \<open>\<open>tokens[i]\<close>: out of range reads as \<open>undefined\<close>.\<close>

definition at :: "string list \<Rightarrow> int \<Rightarrow> jsval" where
  "at xs i = (if 0 \<le> i \<and> i < int (length xs) then VStr (xs ! nat i) else VUndefined)"

text \<open>\<open>tokens.indexOf(token)\<close>: the first position, or \<open>-1\<close>.\<close>

fun indexOf :: "string list \<Rightarrow> string \<Rightarrow> int" where
  "indexOf [] x = - 1"
| "indexOf (y # ys) x =
     (if y = x then 0 else (let i = indexOf ys x in if i < 0 then - 1 else i + 1))"

text \<open>\<open>tokens.slice(i)\<close> for \<open>i \<ge> 0\<close>.\<close>

definition slice :: "string list \<Rightarrow> int \<Rightarrow> string list" where
  "slice xs i = drop (nat i) xs"

fun str_startsWith :: "string \<Rightarrow> string \<Rightarrow> bool" where
  "str_startsWith s [] = True"
| "str_startsWith [] (p # ps) = False"
| "str_startsWith (c # cs) (p # ps) = (c = p \<and> str_startsWith cs ps)"

fun str_includes :: "string \<Rightarrow> string \<Rightarrow> bool" where
  "str_includes [] sub = (sub = [])"
| "str_includes (c # cs) sub = (str_startsWith (c # cs) sub \<or> str_includes cs sub)"

text \<open>\<open>s.split('=')[1]\<close> for an \<open>s\<close> that contains \<open>=\<close>: the piece between the first
  \<open>=\<close> and the second one (or the end).\<close>

definition split_eq_1 :: "string \<Rightarrow> string" where
  "split_eq_1 s =
     takeWhile (\<lambda>c. c \<noteq> CHR ''='') (drop 1 (dropWhile (\<lambda>c. c \<noteq> CHR ''='') s))"

definition isSpace :: "char \<Rightarrow> bool" where
  "isSpace c = (c \<in> set [CHR '' '', CHR 0x09, CHR 0x0A, CHR 0x0B, CHR 0x0C, CHR 0x0D])"

definition trim :: "string \<Rightarrow> string" where
  "trim s = rev (dropWhile isSpace (rev (dropWhile isSpace s)))"

definition lowerLetters :: string where
  "lowerLetters = ''abcdefghijklmnopqrstuvwxyz''"

definition upperLetters :: string where
  "upperLetters = ''ABCDEFGHIJKLMNOPQRSTUVWXYZ''"

definition digits :: string where
  "digits = ''0123456789''"

definition toUpperCase :: "char \<Rightarrow> char" where
  "toUpperCase c = (case map_of (zip lowerLetters upperLetters) c of None \<Rightarrow> c | Some u \<Rightarrow> u)"

text \<open>The regular expression class \<open>.\<close> matches every character but a line terminator.\<close>

definition lineTerminator :: "char \<Rightarrow> bool" where
  "lineTerminator c = (c \<in> set [CHR 0x0A, CHR 0x0D])"

section \<open>helpers/utils.ts\<close>

definition isFlag :: "string \<Rightarrow> bool" where
  "isFlag token = str_startsWith token ''-''"

definition isInlineOption :: "string \<Rightarrow> bool" where
  "isInlineOption token = str_includes token ''=''"

definition isOption :: "string \<Rightarrow> bool" where
  "isOption token = (isFlag token \<or> isInlineOption token)"

definition isSubcommand :: "string \<Rightarrow> config list \<Rightarrow> bool" where
  "isSubcommand token subcommands =
     list_ex (\<lambda>cmd. cfg_name cmd = token \<or> token \<in> set (cfg_aliases cmd)) subcommands"

text \<open>\<open>replace(/-./g, m => m.charAt(1).toUpperCase())\<close>: matches are found left to right
  and do not overlap.\<close>

fun camelHumps :: "string \<Rightarrow> string" where
  "camelHumps (c # d # rest) =
     (if c = CHR ''-'' \<and> \<not> lineTerminator d then toUpperCase d # camelHumps rest
      else c # camelHumps (d # rest))"
| "camelHumps s = s"

definition kebabToCamelCase :: "string \<Rightarrow> string" where
  "kebabToCamelCase token =
     filter (\<lambda>c. c \<noteq> CHR ''-'')
       (camelHumps (dropWhile (\<lambda>c. c = CHR ''-'') (trim token)))"

text \<open>The \<open>for\<close> loop with its \<open>break\<close>.\<close>

fun handlerVariadic :: "string list \<Rightarrow> config list \<Rightarrow> string list" where
  "handlerVariadic [] subcommand = []"
| "handlerVariadic (token # tokens) subcommand =
     (if isSubcommand token subcommand \<or> isOption token then []
      else token # handlerVariadic tokens subcommand)"

section \<open>helpers/parse/option.ts and helpers/parse/argument.ts\<close>

text \<open>The predicate given to \<open>optionDefs.find\<close>.\<close>

definition flagMatches :: "string \<Rightarrow> string \<Rightarrow> bool" where
  "flagMatches flag flagName =
     (kebabToCamelCase flag = flagName \<or> str_includes flagName (kebabToCamelCase flag @ ''=''))"

definition optionMatches :: "string \<Rightarrow> CommandOption \<Rightarrow> bool" where
  "optionMatches flagName opt =
     (if longFlag opt \<noteq> [] \<and> flagMatches (longFlag opt) flagName then True
      else (case shortFlag opt of
              None \<Rightarrow> False
            | Some s \<Rightarrow> s \<noteq> [] \<and> flagMatches s flagName))"

text \<open>
  \<open>optionValue\<close> starts as \<open>null\<close> (\<open>None\<close> here) and is thrown on only when it is
  still \<open>null\<close> after the \<open>switch\<close>; \<open>tokens[index + 1]\<close> past the end is
  \<open>undefined\<close>, which is not \<open>null\<close>.
\<close>

definition parseCommandOption ::
  "string \<Rightarrow> string list \<Rightarrow> config \<Rightarrow> error + ((string \<rightharpoonup> jsval) \<times> nat)" where
  "parseCommandOption token tokens cfg =
     (let flagName = kebabToCamelCase token in
      case find (optionMatches flagName) (cfg_options cfg) of
        None \<Rightarrow> Inl (UnknownOption token)
      | Some matchedOption \<Rightarrow>
          (let index = indexOf tokens token;
               (optionValue, consumed) =
                 (case optKind matchedOption of
                    Value \<Rightarrow>
                      if isFlag token then (Some (at tokens (index + 1)), 2) else (None, 0)
                  | Inline \<Rightarrow>
                      if isInlineOption flagName then (Some (VStr (split_eq_1 flagName)), 1)
                      else (None, 0)
                  | Variadic \<Rightarrow>
                      if isFlag token
                      then (let vs = handlerVariadic (slice tokens (index + 1)) (cfg_subcommands cfg)
                            in (Some (VArr vs), length vs + 1))
                      else (None, 0)
                  | Flag \<Rightarrow>
                      if isFlag token then (Some (VBool True), 1) else (None, 0))
           in case optionValue of
                None \<Rightarrow> Inl (UnexpectedOption token)
              | Some v \<Rightarrow> Inr ([kebabToCamelCase (longFlag matchedOption) \<mapsto> v], consumed)))"

definition parseCommandArgument ::
  "string list \<Rightarrow> config \<Rightarrow> nat \<Rightarrow> error + ((string \<rightharpoonup> jsval) \<times> nat)" where
  "parseCommandArgument tokens cfg argIndex =
     (let token = at tokens 0 in
      if argIndex < length (cfg_arguments cfg) then
        (let argDef = cfg_arguments cfg ! argIndex;
             argumentValue =
               (case argKind argDef of
                  ArgValue \<Rightarrow> token
                | ArgVariadic \<Rightarrow> VArr (handlerVariadic tokens (cfg_subcommands cfg)))
         in Inr ([kebabToCamelCase (argName argDef) \<mapsto> argumentValue],
                 (case argumentValue of VArr vs \<Rightarrow> length vs | _ \<Rightarrow> 1)))
      else Inl (UnexpectedArgument token))"

section \<open>helpers/validate\<close>

definition isLetter :: "char \<Rightarrow> bool" where
  "isLetter c = (c \<in> set lowerLetters \<or> c \<in> set upperLetters)"

definition isWordChar :: "char \<Rightarrow> bool" where
  "isWordChar c = (isLetter c \<or> c \<in> set digits \<or> c = CHR ''_'' \<or> c = CHR ''-'')"

text \<open>The test of \<open>/^[a-zA-Z][a-zA-Z0-9_-]*$/\<close>.\<close>

definition nameFormatOk :: "string \<Rightarrow> bool" where
  "nameFormatOk s = (case s of [] \<Rightarrow> False | c # cs \<Rightarrow> isLetter c \<and> list_all isWordChar cs)"

text \<open>The test of \<open>/^[a-zA-Z-][a-zA-Z0-9_-]*$/\<close>.\<close>

definition flagFormatOk :: "string \<Rightarrow> bool" where
  "flagFormatOk s =
     (case s of [] \<Rightarrow> False | c # cs \<Rightarrow> (isLetter c \<or> c = CHR ''-'') \<and> list_all isWordChar cs)"

definition checkNameFormat :: "string \<Rightarrow> NameVariant \<Rightarrow> error + unit" where
  "checkNameFormat nm variant =
     (if nameFormatOk nm then Inr () else Inl (BadNameFormat variant nm))"

definition validateName :: "string \<Rightarrow> error + unit" where
  "validateName nm =
     (if nm = [] then Inl CommandNameRequired else checkNameFormat nm CommandName)"

text \<open>The loop of \<open>validateAliases\<close>, with its local set \<open>seenAliases\<close>.\<close>

fun validateAliasesFrom :: "string set \<Rightarrow> string list \<Rightarrow> error + unit" where
  "validateAliasesFrom seenAliases [] = Inr ()"
| "validateAliasesFrom seenAliases (alias # rest) =
     (case checkNameFormat alias AliasName of
        Inl e \<Rightarrow> Inl e
      | Inr u \<Rightarrow>
          if alias \<in> seenAliases then Inl (DuplicateAlias alias)
          else validateAliasesFrom (insert alias seenAliases) rest)"

definition validateAliases :: "string list \<Rightarrow> error + unit" where
  "validateAliases aliases = validateAliasesFrom {} aliases"

text \<open>
  \<open>Array.isArray(d) ? d : [d]\<close>, as the list of strings a choice can be equal to:
  a scalar that is not a string equals no choice.
\<close>

fun defaultValues :: "jsval \<Rightarrow> string list" where
  "defaultValues (VArr xs) = xs"
| "defaultValues (VStr s) = [s]"
| "defaultValues v = []"

text \<open>
  The test the source makes of a default against the choices:
  \<open>choices.some((choice) => defaultValues.includes(choice))\<close>.
\<close>

definition defaultAmongChoices :: "string list \<Rightarrow> jsval \<Rightarrow> bool" where
  "defaultAmongChoices choices d = list_ex (\<lambda>choice. choice \<in> set (defaultValues d)) choices"

definition choicesDefaultOk :: "string list option \<Rightarrow> jsval option \<Rightarrow> bool" where
  "choicesDefaultOk choices d =
     (case choices of
        None \<Rightarrow> True
      | Some cs \<Rightarrow>
          (case d of
             None \<Rightarrow> True
           | Some v \<Rightarrow> if truthy v then defaultAmongChoices cs v else True))"

fun validateArgumentsFrom :: "string set \<Rightarrow> CommandArgument list \<Rightarrow> error + unit" where
  "validateArgumentsFrom argNames [] = Inr ()"
| "validateArgumentsFrom argNames (arg # rest) =
     (if argName arg = [] then Inl ArgumentNameRequired
      else case checkNameFormat (argName arg) ArgumentName of
        Inl e \<Rightarrow> Inl e
      | Inr u \<Rightarrow>
          if argName arg \<in> argNames then Inl (DuplicateArgumentName (argName arg))
          else if \<not> choicesDefaultOk (argChoices arg) (argDefault arg)
            then Inl (ArgumentDefaultNotInChoices (argName arg))
          else if \<not> argOptional arg \<and> given (argDefault arg)
            then Inl (ArgumentDefaultButRequired (argName arg))
          else if argKind arg \<noteq> ArgVariadic \<and> given (argDefault arg)
                  \<and> (case argDefault arg of None \<Rightarrow> False | Some v \<Rightarrow> isArray v)
            then Inl (ArgumentDefaultIsArray (argName arg))
          else validateArgumentsFrom (insert (argName arg) argNames) rest)"

definition validateArguments :: "CommandArgument list \<Rightarrow> error + unit" where
  "validateArguments as = validateArgumentsFrom {} as"

definition takesValue :: "CommandOptionKind \<Rightarrow> bool" where
  "takesValue k = (k = Value \<or> k = Variadic \<or> k = Inline)"

definition validateOptionFormat :: "string option \<Rightarrow> FlagVariant \<Rightarrow> error + unit" where
  "validateOptionFormat nm variant =
     (case nm of
        None \<Rightarrow> Inr ()
      | Some s \<Rightarrow> if s \<noteq> [] \<and> \<not> flagFormatOk s then Inl (InvalidFlag variant s) else Inr ())"

definition shortFlagGiven :: "CommandOption \<Rightarrow> bool" where
  "shortFlagGiven opt = (case shortFlag opt of None \<Rightarrow> False | Some s \<Rightarrow> s \<noteq> [])"

definition withShortFlag :: "CommandOption \<Rightarrow> string set \<Rightarrow> string set" where
  "withShortFlag opt optionNames =
     (case shortFlag opt of
        None \<Rightarrow> optionNames
      | Some s \<Rightarrow> if s \<noteq> [] then insert s optionNames else optionNames)"

fun validateOptionsFrom :: "string set \<Rightarrow> CommandOption list \<Rightarrow> error + unit" where
  "validateOptionsFrom optionNames [] = Inr ()"
| "validateOptionsFrom optionNames (opt # rest) =
     (if longFlag opt = [] then Inl LongFlagRequired
      else case validateOptionFormat (Some (longFlag opt)) LongFlag of
        Inl e \<Rightarrow> Inl e
      | Inr u \<Rightarrow>
         (case validateOptionFormat (shortFlag opt) ShortFlag of
            Inl e \<Rightarrow> Inl e
          | Inr u \<Rightarrow>
              if longFlag opt \<in> optionNames then Inl (DuplicateLongFlag (longFlag opt))
              else if shortFlagGiven opt
                      \<and> (case shortFlag opt of
                            None \<Rightarrow> False
                          | Some s \<Rightarrow> s \<in> insert (longFlag opt) optionNames)
                then Inl (DuplicateShortFlag (case shortFlag opt of None \<Rightarrow> [] | Some s \<Rightarrow> s))
              else if takesValue (optKind opt)
                      \<and> \<not> choicesDefaultOk (optChoices opt) (optDefault opt)
                then Inl (OptionDefaultNotInChoices (longFlag opt))
              else if takesValue (optKind opt) \<and> \<not> optOptional opt \<and> given (optDefault opt)
                then Inl (OptionDefaultButRequired (longFlag opt))
              else validateOptionsFrom (withShortFlag opt (insert (longFlag opt) optionNames)) rest))"

definition validateOptions :: "CommandOption list \<Rightarrow> error + unit" where
  "validateOptions opts = validateOptionsFrom {} opts"

text \<open>
  \<open>validateConfig\<close> and the loop of \<open>validateSubcommands\<close> (with its local set
  \<open>subcommandNames\<close>) call each other.
\<close>

fun validateConfig :: "config \<Rightarrow> error + unit"
  and validateSubcommandsFrom :: "string set \<Rightarrow> config list \<Rightarrow> error + unit" where
  "validateConfig (Config nm ver hh hv aliases opts as hs subs) =
     (case validateName nm of
        Inl e \<Rightarrow> Inl e
      | Inr u \<Rightarrow>
         (case validateAliases aliases of
            Inl e \<Rightarrow> Inl e
          | Inr u \<Rightarrow>
             (case validateArguments as of
                Inl e \<Rightarrow> Inl e
              | Inr u \<Rightarrow>
                 (case validateOptions opts of
                    Inl e \<Rightarrow> Inl e
                  | Inr u \<Rightarrow> validateSubcommandsFrom {} subs))))"
| "validateSubcommandsFrom subcommandNames [] = Inr ()"
| "validateSubcommandsFrom subcommandNames (subCmd # rest) =
     (if cfg_name subCmd = [] then Inl SubcommandNameRequired
      else if cfg_name subCmd \<in> subcommandNames
        then Inl (DuplicateSubcommandName (cfg_name subCmd))
      else case validateConfig subCmd of
        Inl e \<Rightarrow> Inl e
      | Inr u \<Rightarrow> validateSubcommandsFrom (insert (cfg_name subCmd) subcommandNames) rest)"

definition validateSubcommands :: "config list \<Rightarrow> error + unit" where
  "validateSubcommands subs = validateSubcommandsFrom {} subs"

section \<open>helpers/parse/index.ts\<close>

text \<open>\<open>Array.isArray(value) ? value : value ? [value] : []\<close>\<close>

fun valuesToCheck :: "jsval \<Rightarrow> jsval list" where
  "valuesToCheck (VArr xs) = map VStr xs"
| "valuesToCheck v = (if truthy v then [v] else [])"

definition validateChoices :: "FieldVariant \<Rightarrow> jsval \<Rightarrow> string \<Rightarrow> string list \<Rightarrow> error + unit" where
  "validateChoices variant val nm choices =
     (case find (\<lambda>v. v \<notin> set (map VStr choices)) (valuesToCheck val) of
        None \<Rightarrow> Inr ()
      | Some v \<Rightarrow> Inl (ValueNotInChoices variant v nm))"

text \<open>
  The \<open>while\<close> loop of \<open>parseRuntime\<close>. It is left in three ways: by \<open>break\<close> or by
  its condition (\<open>Finished\<close>: the checks after the loop run), by \<open>return input\<close>
  (\<open>Returned\<close>: they do not), or by an exception. Nothing in the definition bounds the
  number of iterations: the value \<open>None\<close> stands for a loop that runs forever.
\<close>

datatype scan = Finished ParseInput | Returned ParseInput

partial_function (option) parseLoop ::
  "config \<Rightarrow> string list \<Rightarrow> nat \<Rightarrow> nat \<Rightarrow> ParseInput \<Rightarrow> (error + scan) option" where
  "parseLoop cfg tokens argIndex tokenIndex input =
     (if tokenIndex < length tokens then
        (let token = tokens ! tokenIndex in
         if token = ''--'' then
           Some (Inr (Finished (input\<lparr>unparsed := drop (tokenIndex + 1) tokens\<rparr>)))
         else if isOption token then
           (case parseCommandOption token (drop tokenIndex tokens) cfg of
              Inl e \<Rightarrow> Some (Inl e)
            | Inr (option, consumed) \<Rightarrow>
                (let input' = input\<lparr>options := objectAssign (options input) option\<rparr> in
                 if \<not> cfg_hidden_version cfg \<and> token \<in> set [''--version'', ''-v'']
                   then Some (Inr (Returned input'))
                 else if \<not> cfg_hidden_help cfg \<and> token \<in> set [''--help'', ''-h'']
                   then Some (Inr (Returned input'))
                 else parseLoop cfg tokens argIndex (tokenIndex + consumed) input'))
         else if isSubcommand token (cfg_subcommands cfg) then
           Some (Inr (Finished (input\<lparr>unparsed := drop tokenIndex tokens\<rparr>)))
         else
           (case parseCommandArgument (drop tokenIndex tokens) cfg argIndex of
              Inl e \<Rightarrow> Some (Inl e)
            | Inr (argument, consumed) \<Rightarrow>
                parseLoop cfg tokens (argIndex + 1) (tokenIndex + consumed)
                  (input\<lparr>args := objectAssign (args input) argument\<rparr>)))
      else Some (Inr (Finished input)))"

declare parseLoop.simps [code]

text \<open>The two \<open>for\<close> loops after the scan; each works on one object of the result.\<close>

definition emptyArray :: "jsval \<Rightarrow> bool" where
  "emptyArray v = (case v of VArr xs \<Rightarrow> xs = [] | _ \<Rightarrow> False)"

definition withDefault :: "jsval option \<Rightarrow> string \<Rightarrow> (string \<rightharpoonup> jsval) \<Rightarrow> (string \<rightharpoonup> jsval)" where
  "withDefault d key obj =
     (case d of
        None \<Rightarrow> obj
      | Some v \<Rightarrow>
          if truthy v
          then (if truthy (getProp obj key)
                then (if emptyArray (getProp obj key) then setProp obj key v else obj)
                else setProp obj key v)
          else obj)"

fun isBoolean :: "jsval \<Rightarrow> bool" where
  "isBoolean (VBool b) = True"
| "isBoolean v = False"

fun checkOptions :: "CommandOption list \<Rightarrow> (string \<rightharpoonup> jsval) \<Rightarrow> error + (string \<rightharpoonup> jsval)" where
  "checkOptions [] obj = Inr obj"
| "checkOptions (option # rest) obj =
     (if optKind option = Inline \<or> optKind option = Variadic \<or> optKind option = Value then
        (let key = kebabToCamelCase (longFlag option);
             optionValue = getProp obj key
         in if \<not> truthy (getProp obj key) \<and> \<not> optOptional option
              then Inl (RequiredOptionMissing (longFlag option))
            else
              (let obj' = withDefault (optDefault option) key obj
               in case (case optChoices option of
                          None \<Rightarrow> Inr ()
                        | Some choices \<Rightarrow>
                            if isBoolean optionValue then Inr ()
                            else validateChoices OptionField optionValue (longFlag option) choices) of
                    Inl e \<Rightarrow> Inl e
                  | Inr u \<Rightarrow> checkOptions rest obj'))
      else checkOptions rest obj)"

fun checkArguments :: "CommandArgument list \<Rightarrow> (string \<rightharpoonup> jsval) \<Rightarrow> error + (string \<rightharpoonup> jsval)" where
  "checkArguments [] obj = Inr obj"
| "checkArguments (arg # rest) obj =
     (let key = kebabToCamelCase (argName arg);
          argValue = getProp obj key
      in if \<not> truthy argValue \<and> \<not> argOptional arg
           then Inl (RequiredArgumentMissing (argName arg))
         else
           (let obj' = withDefault (argDefault arg) key obj
            in case (case argChoices arg of
                       None \<Rightarrow> Inr ()
                     | Some choices \<Rightarrow>
                         validateChoices ArgumentField argValue (argName arg) choices) of
                 Inl e \<Rightarrow> Inl e
               | Inr u \<Rightarrow> checkArguments rest obj'))"

definition emptyInput :: ParseInput where
  "emptyInput = \<lparr>args = Map.empty, options = Map.empty, unparsed = []\<rparr>"

definition parseRuntime :: "config \<Rightarrow> string list \<Rightarrow> (error + ParseInput) option" where
  "parseRuntime cfg tokens =
     (case validateConfig cfg of
        Inl e \<Rightarrow> Some (Inl e)
      | Inr u \<Rightarrow>
         (case parseLoop cfg tokens 0 0 emptyInput of
            None \<Rightarrow> None
          | Some (Inl e) \<Rightarrow> Some (Inl e)
          | Some (Inr (Returned input)) \<Rightarrow> Some (Inr input)
          | Some (Inr (Finished input)) \<Rightarrow>
             (case checkOptions (cfg_options cfg) (options input) of
                Inl e \<Rightarrow> Some (Inl e)
              | Inr opts \<Rightarrow>
                 (case checkArguments (cfg_arguments cfg) (args input) of
                    Inl e \<Rightarrow> Some (Inl e)
                  | Inr as \<Rightarrow> Some (Inr (input\<lparr>args := as, options := opts\<rparr>))))))"

section \<open>helpers/runner.ts\<close>

text \<open>
  The module keeps two values for as long as the process lives: the object \<open>input\<close>
  and the list \<open>commandNames\<close>. They are the state that \<open>runner\<close> reads and
  leaves changed. What a run does to the outside is recorded as a list of events; a
  handler is taken to return normally and to leave the object it is given alone, and
  the event of its call holds that object as it is at the call. Handlers are awaited one
  after the other, so a run is a sequence.

  A run gives the state it leaves, the events it produced and the error it threw, if
  any: when a level throws, the levels above it have already changed the state and
  called their handlers.
\<close>

record module_state =
  mod_input :: ParseInput
  mod_commandNames :: "string list"

datatype event = HandlerCall nat ParseInput | ShowHelp "string list" | PrintVersion string

text \<open>\<open>Object.assign(target, source)\<close> on two arrays writes the indices of the source.\<close>

definition assignArray :: "string list \<Rightarrow> string list \<Rightarrow> string list" where
  "assignArray target source = source @ drop (length source) target"

text \<open>
  \<open>Object.assign(target, source)\<close> for a source that is an object of a parse result: its
  own properties are assigned to the target. None of them is named \<open>__proto__\<close>; the
  prototype of the source is not copied and that of the target stays.
\<close>

definition assignResult :: "(string \<rightharpoonup> jsval) \<Rightarrow> (string \<rightharpoonup> jsval) \<Rightarrow> (string \<rightharpoonup> jsval)" where
  "assignResult target source =
     (\<lambda>key. if key = ''__proto__'' then target key
            else (case source key of None \<Rightarrow> target key | Some v \<Rightarrow> Some v))"

definition assignInput :: "ParseInput \<Rightarrow> ParseInput \<Rightarrow> ParseInput" where
  "assignInput target parsed =
     \<lparr>args = assignResult (args target) (args parsed),
      options = assignResult (options target) (options parsed),
      unparsed = assignArray (unparsed target) (unparsed parsed)\<rparr>"

definition namesCommand :: "string \<Rightarrow> config \<Rightarrow> bool" where
  "namesCommand subName cmd = (cfg_name cmd = subName \<or> subName \<in> set (cfg_aliases cmd))"

function runner ::
  "module_state \<Rightarrow> config \<Rightarrow> string list
     \<Rightarrow> (module_state \<times> event list \<times> error option) option" where
  "runner st cfg tokens =
     (case parseRuntime cfg tokens of
        None \<Rightarrow> None
      | Some (Inl e) \<Rightarrow> Some (st, [], Some e)
      | Some (Inr parsed) \<Rightarrow>
         (let st' = \<lparr>mod_input = assignInput (mod_input st) parsed,
                     mod_commandNames = mod_commandNames st @ [cfg_name cfg]\<rparr>
          in if truthy (getProp (options parsed) ''help'') \<and> \<not> cfg_hidden_help cfg
               then Some (st', [ShowHelp (mod_commandNames st')], None)
             else if truthy (getProp (options parsed) ''version'') \<and> \<not> cfg_hidden_version cfg
               then Some (st', [PrintVersion (cfg_version cfg)], None)
             else
               (let calls = map (\<lambda>handler. HandlerCall handler (mod_input st')) (cfg_handlers cfg)
                in case unparsed parsed of
                     [] \<Rightarrow> Some (st', calls, None)
                   | subName # rest \<Rightarrow>
                      (case find (namesCommand subName) (cfg_subcommands cfg) of
                         None \<Rightarrow> Some (st', calls, None)
                       | Some subcommand \<Rightarrow>
                          (case runner st' subcommand rest of
                             None \<Rightarrow> None
                           | Some (st'', events, thrown) \<Rightarrow>
                               Some (st'', calls @ events, thrown))))))"
  by pat_completeness auto

lemma subcommand_smaller: "sub \<in> set (cfg_subcommands cfg) \<Longrightarrow> size sub < size cfg"
proof (cases cfg)
  case (Config nm ver hh hv aliases opts as hs subs)
  assume "sub \<in> set (cfg_subcommands cfg)"
  with Config have "sub \<in> set subs" by simp
  then have "size sub \<le> size_list size subs"
    by (rule size_list_estimation') simp
  with Config show ?thesis by simp
qed

lemma find_Some_set: "find P xs = Some x \<Longrightarrow> x \<in> set xs"
  by (induction xs) (auto split: if_splits)

termination runner
  by (relation "measure (\<lambda>(st, cfg, tokens). size cfg)")
     (auto dest!: find_Some_set subcommand_smaller)

declare runner.simps [simp del]

text \<open>The state of the module when the process starts.\<close>

definition pristine :: module_state where
  "pristine = \<lparr>mod_input = emptyInput, mod_commandNames = []\<rparr>"

section \<open>Example declarations\<close>

text \<open>
  The declarations of the README, cut down to the fields the parser reads. The builder
  gives a field \<open>optional: false\<close> unless the declaration says otherwise.
\<close>

definition valueCli :: "bool \<Rightarrow> config" where
  "valueCli optional = Config ''my-cli'' ''2.0.0'' False False []
     [\<lparr>longFlag = ''--output'', optKind = Value, shortFlag = Some ''-o'', optDefault = None,
       optChoices = None, optOptional = optional\<rparr>] [] [0] []"

definition inlineCli :: config where
  "inlineCli = Config ''my-cli'' ''2.0.0'' False False []
     [\<lparr>longFlag = ''--output'', optKind = Inline, shortFlag = None, optDefault = None,
       optChoices = None, optOptional = True\<rparr>] [] [0] []"

definition pushCmd :: config where
  "pushCmd = Config ''push'' ''1.0.0'' False False [] [] [] [2] []"

definition commitCmd :: config where
  "commitCmd = Config ''commit'' ''1.0.0'' False False [''c'']
     [\<lparr>longFlag = ''--message'', optKind = Value, shortFlag = Some ''-m'', optDefault = None,
       optChoices = None, optOptional = False\<rparr>,
      \<lparr>longFlag = ''--all'', optKind = Flag, shortFlag = Some ''-a'', optDefault = None,
       optChoices = None, optOptional = False\<rparr>] [] [1] []"

definition gitCli :: config where
  "gitCli = Config ''git'' ''1.0.0'' False False [] []
     [\<lparr>argName = ''files'', argKind = ArgVariadic, argDefault = None, argChoices = None,
       argOptional = True\<rparr>] [0] [commitCmd, pushCmd]"

definition tagsArgument :: CommandArgument where
  "tagsArgument = \<lparr>argName = ''tags'', argKind = ArgVariadic,
     argDefault = Some (VArr [''a'', ''zzz'']), argChoices = Some [''a'', ''b''],
     argOptional = True\<rparr>"

definition tagsOption :: CommandOption where
  "tagsOption = \<lparr>longFlag = ''--tags'', optKind = Variadic, shortFlag = None,
     optDefault = Some (VArr [''a'', ''zzz'']), optChoices = Some [''a'', ''b''],
     optOptional = True\<rparr>"

definition tagsCli :: config where
  "tagsCli = Config ''my-cli'' ''2.0.0'' False False [] [tagsOption] [tagsArgument] [0] []"

definition duplicateArgsCmd :: config where
  "duplicateArgsCmd = Config ''build'' ''1.0.0'' False False [] []
     [\<lparr>argName = ''entry'', argKind = ArgValue, argDefault = None, argChoices = None,
       argOptional = False\<rparr>,
      \<lparr>argName = ''entry'', argKind = ArgValue, argDefault = None, argChoices = None,
       argOptional = True\<rparr>] [1] []"

definition badFlagCmd :: config where
  "badFlagCmd = Config ''serve'' ''1.0.0'' False False []
     [\<lparr>longFlag = ''--port number'', optKind = Value, shortFlag = None, optDefault = None,
       optChoices = None, optOptional = True\<rparr>] [] [2] []"

definition toolCli :: "config \<Rightarrow> config" where
  "toolCli sub = Config ''tool'' ''1.0.0'' False False [] [] [] [0] [sub]"

text \<open>The two options that \<open>Command.parse\<close> adds to a declaration.\<close>

definition helpOption :: CommandOption where
  "helpOption = \<lparr>longFlag = ''--help'', optKind = Flag, shortFlag = Some ''-h'',
     optDefault = None, optChoices = None, optOptional = False\<rparr>"

definition versionOption :: CommandOption where
  "versionOption = \<lparr>longFlag = ''--version'', optKind = Flag, shortFlag = Some ''-v'',
     optDefault = None, optChoices = None, optOptional = False\<rparr>"

definition outputOption :: CommandOption where
  "outputOption = \<lparr>longFlag = ''--output'', optKind = Value, shortFlag = Some ''-o'',
     optDefault = None, optChoices = None, optOptional = False\<rparr>"

definition inputArgument :: CommandArgument where
  "inputArgument = \<lparr>argName = ''input'', argKind = ArgValue, argDefault = None,
     argChoices = None, argOptional = False\<rparr>"

definition myCli :: config where
  "myCli = Config ''mycli'' ''1.0.0'' False False []
     [outputOption, helpOption, versionOption] [inputArgument] [0] []"

definition shadowedHelpCli :: config where
  "shadowedHelpCli = Config ''mycli'' ''1.0.0'' False False []
     [\<lparr>longFlag = ''-help'', optKind = Inline, shortFlag = None, optDefault = None,
       optChoices = None, optOptional = True\<rparr>, helpOption, versionOption] [] [0] []"

definition dryRunCli :: config where
  "dryRunCli = Config ''my-cli'' ''2.0.0'' False False []
     [\<lparr>longFlag = ''--dry-run'', optKind = Flag, shortFlag = Some ''-n'', optDefault = None,
       optChoices = None, optOptional = False\<rparr>] [] [0] []"

definition modeOption :: CommandOption where
  "modeOption = \<lparr>longFlag = ''--mode'', optKind = Value, shortFlag = None,
     optDefault = Some (VStr ''development''),
     optChoices = Some [''development'', ''production''], optOptional = True\<rparr>"

definition targetArgument :: CommandArgument where
  "targetArgument = \<lparr>argName = ''target'', argKind = ArgValue,
     argDefault = Some (VStr ''all''), argChoices = None, argOptional = True\<rparr>"

definition buildCli :: config where
  "buildCli = Config ''build'' ''1.0.0'' False False []
     [modeOption, tagsOption, helpOption, versionOption] [targetArgument] [0] []"

definition outDirOptions :: "CommandOption list" where
  "outDirOptions =
     [\<lparr>longFlag = ''--out-dir'', optKind = Value, shortFlag = None,
       optDefault = Some (VStr ''a''), optChoices = None, optOptional = True\<rparr>,
      \<lparr>longFlag = ''--outDir'', optKind = Value, shortFlag = None,
       optDefault = Some (VStr ''b''), optChoices = None, optOptional = True\<rparr>]"

definition outDirCli :: config where
  "outDirCli = Config ''build'' ''1.0.0'' False False [] outDirOptions [] [0] []"

definition choiceFirstCli :: config where
  "choiceFirstCli = Config ''build'' ''1.0.0'' False False []
     [modeOption, outputOption] [] [0] []"

definition maskedRequiredCli :: config where
  "maskedRequiredCli = Config ''build'' ''1.0.0'' False False []
     [\<lparr>longFlag = ''--out-dir'', optKind = Value, shortFlag = None,
       optDefault = Some (VStr ''a''), optChoices = None, optOptional = True\<rparr>,
      \<lparr>longFlag = ''--outDir'', optKind = Value, shortFlag = None,
       optDefault = None, optChoices = None, optOptional = False\<rparr>] [] [0] []"

text \<open>A command that was given no name: the builder starts with the empty name.\<close>

definition namelessCli :: "CommandOption list \<Rightarrow> config" where
  "namelessCli opts = Config [] ''1.0.0'' False False [] opts [] [0] []"

definition emptyDefaultOption :: CommandOption where
  "emptyDefaultOption = \<lparr>longFlag = ''--prefix'', optKind = Value, shortFlag = None,
     optDefault = Some (VStr []), optChoices = None, optOptional = True\<rparr>"

definition prefixCli :: config where
  "prefixCli = Config ''build'' ''1.0.0'' False False [] [emptyDefaultOption] [] [0] []"

text \<open>A command whose own option \<open>--help\<close> takes a list of topics.\<close>

definition helpTopicsOption :: CommandOption where
  "helpTopicsOption = \<lparr>longFlag = ''--help'', optKind = Variadic, shortFlag = None,
     optDefault = None, optChoices = None, optOptional = True\<rparr>"

definition helpTopicsCli :: config where
  "helpTopicsCli = Config ''mycli'' ''1.0.0'' False False []
     [outputOption, helpTopicsOption] [inputArgument] [0] []"

text \<open>A flag stored under the key \<open>__proto__\<close>, with \<open>--help\<close> as its short flag.\<close>

definition protoOption :: CommandOption where
  "protoOption = \<lparr>longFlag = ''-__proto__'', optKind = Flag, shortFlag = Some ''--help'',
     optDefault = None, optChoices = None, optOptional = False\<rparr>"

definition protoCli :: config where
  "protoCli = Config ''mycli'' ''1.0.0'' False False [] [protoOption] [] [0] []"

definition toStringCli :: "bool \<Rightarrow> jsval option \<Rightarrow> config" where
  "toStringCli optional d = Config ''dump'' ''1.0.0'' False False []
     [\<lparr>longFlag = ''--to-string'', optKind = Value, shortFlag = None,
       optDefault = d, optChoices = None, optOptional = optional\<rparr>] [] [0] []"

section \<open>Notions used to state the properties\<close>

text \<open>The key under which a field's value is stored in the result.\<close>

abbreviation optionKey :: "CommandOption \<Rightarrow> string" where
  "optionKey opt \<equiv> kebabToCamelCase (longFlag opt)"

abbreviation argumentKey :: "CommandArgument \<Rightarrow> string" where
  "argumentKey arg \<equiv> kebabToCamelCase (argName arg)"

text \<open>
  Whether the default \<open>d\<close> of a field stored under \<open>key\<close>, once written, can change
  what the key \<open>k\<close> reads as: it is written only when it is truthy; under the key
  \<open>__proto__\<close> it changes the prototype when it is an array and nothing otherwise;
  under any other key it changes that key only.
\<close>

definition fills :: "jsval option \<Rightarrow> string \<Rightarrow> string \<Rightarrow> bool" where
  "fills d key k =
     (case d of
        None \<Rightarrow> False
      | Some v \<Rightarrow> truthy v \<and> (if key = ''__proto__'' then isArray v else key = k))"

text \<open>The two kinds of error the loops after the scan throw.\<close>

fun requiredFieldError :: "error \<Rightarrow> bool" where
  "requiredFieldError (RequiredOptionMissing flag) = True"
| "requiredFieldError (RequiredArgumentMissing nm) = True"
| "requiredFieldError e = False"

fun invalidChoiceError :: "error \<Rightarrow> bool" where
  "invalidChoiceError (ValueNotInChoices variant v nm) = True"
| "invalidChoiceError e = False"

section \<open>Evaluation\<close>

lemmas model_defs =
  parseRuntime_def parseLoop.simps parseCommandOption_def parseCommandArgument_def
  kebabToCamelCase_def trim_def isSpace_def isOption_def isFlag_def isInlineOption_def
  isSubcommand_def optionMatches_def flagMatches_def validateName_def validateAliases_def
  validateArguments_def validateOptions_def checkNameFormat_def nameFormatOk_def
  flagFormatOk_def isLetter_def isWordChar_def lowerLetters_def upperLetters_def digits_def
  validateOptionFormat_def shortFlagGiven_def withShortFlag_def takesValue_def
  choicesDefaultOk_def defaultAmongChoices_def given_def getProp_def at_def slice_def
  split_eq_1_def toUpperCase_def lineTerminator_def emptyInput_def withDefault_def
  emptyArray_def validateChoices_def inherited_def prototypeOf_def setProp_def
  objectPrototypeMembers_def arrayPrototypeMembers_def arrayIndex_def digitValue_def

lemma objectAssign_single [simp]: "objectAssign target [key \<mapsto> v] = setProp target key v"
  by (auto simp: objectAssign_def setProp_def fun_eq_iff)

lemma setProp_array: "setProp obj key (VArr xs) = obj(key \<mapsto> VArr xs)"
  by (simp add: setProp_def)

lemma assignResult_empty [simp]: "assignResult target Map.empty = target"
  by (simp add: assignResult_def fun_eq_iff)

lemma assignResult_update [simp]:
  "assignResult target (source(key \<mapsto> v)) =
     (if key = ''__proto__'' then assignResult target source
      else (assignResult target source)(key \<mapsto> v))"
  by (auto simp: assignResult_def fun_eq_iff)

section \<open>The scan always ends\<close>

lemma parseCommandOption_consumed:
  "parseCommandOption token tokens cfg = Inr (opt, consumed) \<Longrightarrow> 1 \<le> consumed"
  by (auto simp: parseCommandOption_def Let_def
           split: option.splits CommandOptionKind.splits if_splits)

lemma parseCommandArgument_consumed:
  assumes "parseCommandArgument (token # tokens) cfg argIndex = Inr (argument, consumed)"
    and "\<not> isOption token" and "\<not> isSubcommand token (cfg_subcommands cfg)"
  shows "1 \<le> consumed"
  using assms
  by (auto simp: parseCommandArgument_def Let_def at_def
           split: if_splits CommandArgumentKind.splits)

lemma parseLoop_total: "\<exists>r. parseLoop cfg tokens argIndex tokenIndex inp = Some r"
proof (induction "length tokens - tokenIndex" arbitrary: argIndex tokenIndex inp rule: less_induct)
  case less
  show ?case
  proof (cases "tokenIndex < length tokens")
    case False
    then show ?thesis by (subst parseLoop.simps) simp
  next
    case inside: True
    define token where "token = tokens ! tokenIndex"
    have rest: "drop tokenIndex tokens = token # drop (Suc tokenIndex) tokens"
      using inside by (simp add: token_def Cons_nth_drop_Suc)
    show ?thesis
    proof (cases "token = ''--''")
      case True
      then show ?thesis using inside
        by (subst parseLoop.simps) (simp add: token_def)
    next
      case notsep: False
      show ?thesis
      proof (cases "isOption token")
        case True
        show ?thesis
        proof (cases "parseCommandOption token (drop tokenIndex tokens) cfg")
          case (Inl e)
          then show ?thesis using inside notsep True
            by (subst parseLoop.simps) (simp add: token_def [symmetric])
        next
          case (Inr p)
          obtain opt consumed where p: "p = (opt, consumed)" by (cases p)
          from Inr p have "1 \<le> consumed" by (auto dest: parseCommandOption_consumed)
          with inside have "length tokens - (tokenIndex + consumed) < length tokens - tokenIndex"
            by arith
          from less [OF this] obtain r where
            "parseLoop cfg tokens argIndex (tokenIndex + consumed)
               (inp\<lparr>options := objectAssign (options inp) opt\<rparr>) = Some r"
            by blast
          then show ?thesis using inside notsep True Inr p
            by (subst parseLoop.simps) (simp add: token_def [symmetric] Let_def)
        qed
      next
        case noopt: False
        show ?thesis
        proof (cases "isSubcommand token (cfg_subcommands cfg)")
          case True
          then show ?thesis using inside notsep noopt
            by (subst parseLoop.simps) (simp add: token_def [symmetric])
        next
          case nosub: False
          show ?thesis
          proof (cases "parseCommandArgument (drop tokenIndex tokens) cfg argIndex")
            case (Inl e)
            then show ?thesis using inside notsep noopt nosub
              by (subst parseLoop.simps) (simp add: token_def [symmetric])
          next
            case (Inr p)
            obtain argument consumed where p: "p = (argument, consumed)" by (cases p)
            from Inr p rest noopt nosub have "1 \<le> consumed"
              by (auto dest: parseCommandArgument_consumed)
            with inside have "length tokens - (tokenIndex + consumed) < length tokens - tokenIndex"
              by arith
            from less [OF this] obtain r where
              "parseLoop cfg tokens (argIndex + 1) (tokenIndex + consumed)
                 (inp\<lparr>args := objectAssign (args inp) argument\<rparr>) = Some r"
              by blast
            then show ?thesis using inside notsep noopt nosub Inr p
              by (subst parseLoop.simps) (simp add: token_def [symmetric])
          qed
        qed
      qed
    qed
  qed
qed

lemma parseRuntime_total: "\<exists>r. parseRuntime cfg tokens = Some r"
proof -
  obtain r where "parseLoop cfg tokens 0 0 emptyInput = Some r"
    using parseLoop_total by blast
  then show ?thesis
    by (auto simp: parseRuntime_def split: sum.splits scan.splits)
qed

text \<open>
  C10: the parse loop ends on every token list. \<open>parseRuntime\<close> returns a value (a
  result or one of the declared errors) for every declaration and every token list, and
  so does the loop from any cursor, argument index and accumulator; every iteration that
  goes on moves the token cursor by at least one: a matched option consumes at least
  one token, and so does a positional match on a token that is neither option-shaped nor
  the name of a subcommand, which is the only way the loop reaches it.
\<close>

theorem parseRuntime_terminates:
  "(\<exists>r. parseRuntime cfg tokens = Some r)
   \<and> (\<exists>r. parseLoop cfg tokens argIndex tokenIndex inp = Some r)
   \<and> (\<forall>opt consumed.
         parseCommandOption token remaining cfg = Inr (opt, consumed) \<longrightarrow> 1 \<le> consumed)
   \<and> (\<forall>argument consumed.
         \<not> isOption token \<and> \<not> isSubcommand token (cfg_subcommands cfg)
         \<and> parseCommandArgument (token # rest) cfg argIndex = Inr (argument, consumed)
         \<longrightarrow> 1 \<le> consumed)"
  using parseRuntime_total parseLoop_total parseCommandOption_consumed
    parseCommandArgument_consumed
  by blast

theorem parseRuntime_terminates_witness:
  "parseCommandOption ''-o'' [''-o'', ''dist/''] (valueCli False)
     = Inr ([''output'' \<mapsto> VStr ''dist/''], 2)
   \<and> \<not> isOption ''build'' \<and> \<not> isSubcommand ''build'' (cfg_subcommands gitCli)
   \<and> parseCommandArgument [''build'', ''push''] gitCli 0
       = Inr ([''files'' \<mapsto> VArr [''build'']], 1)
   \<and> (\<exists>r. parseRuntime gitCli [''build'', ''push''] = Some r)
   \<and> (\<exists>r. parseLoop gitCli [''build'', ''push''] 0 1 emptyInput = Some r)"
  using parseRuntime_terminates [of gitCli "[''build'', ''push'']" 0 1 emptyInput
      "''build''" "[''build'', ''push'']" "[''push'']"]
    parseRuntime_terminates [of "valueCli False" "[''-o'', ''dist/'']" 0 0 emptyInput
      "''-o''" "[''-o'', ''dist/'']" "[''dist/'']"]
  by (simp add: valueCli_def gitCli_def commitCmd_def pushCmd_def model_defs)

section \<open>The variadic collector\<close>

lemma handlerVariadic_append:
  "\<exists>rest. tokens = handlerVariadic tokens subs @ rest
     \<and> (case rest of [] \<Rightarrow> True | t # ts \<Rightarrow> isSubcommand t subs \<or> isOption t)"
  by (induction tokens) auto

lemma handlerVariadic_collected:
  "list_all (\<lambda>t. \<not> isSubcommand t subs \<and> \<not> isOption t) (handlerVariadic tokens subs)"
  by (induction tokens) auto

lemma variadic_option_collects:
  assumes "find (optionMatches (kebabToCamelCase token)) (cfg_options cfg) = Some m"
    and "optKind m = Variadic" and "isFlag token"
  shows "parseCommandOption token (token # rest) cfg =
    Inr ([kebabToCamelCase (longFlag m) \<mapsto> VArr (handlerVariadic rest (cfg_subcommands cfg))],
         length (handlerVariadic rest (cfg_subcommands cfg)) + 1)"
  using assms by (simp add: parseCommandOption_def slice_def Let_def)

lemma variadic_argument_collects:
  assumes "argIndex < length (cfg_arguments cfg)"
    and "argKind (cfg_arguments cfg ! argIndex) = ArgVariadic"
  shows "parseCommandArgument tokens cfg argIndex =
    Inr ([kebabToCamelCase (argName (cfg_arguments cfg ! argIndex))
            \<mapsto> VArr (handlerVariadic tokens (cfg_subcommands cfg))],
         length (handlerVariadic tokens (cfg_subcommands cfg)))"
  using assms by (simp add: parseCommandArgument_def)

lemma variadic_argument_then_subcommand:
  assumes "cfg_arguments cfg = a # as" and "argKind a = ArgVariadic"
    and "isSubcommand ''push'' (cfg_subcommands cfg)"
    and "\<not> isSubcommand ''build'' (cfg_subcommands cfg)"
  shows "parseLoop cfg [''build'', ''push''] 0 0 emptyInput =
    Some (Inr (Finished \<lparr>args = [kebabToCamelCase (argName a) \<mapsto> VArr [''build'']],
                          options = Map.empty, unparsed = [''push'']\<rparr>))"
  using assms
  by (simp add: parseLoop.simps isOption_def isFlag_def isInlineOption_def
        parseCommandArgument_def emptyInput_def at_def setProp_array)

text \<open>
  C7: the variadic collector takes the longest run of leading tokens none of which is
  option-shaped or the name or an alias of a subcommand of this level: the tokens are
  the collected ones followed by a rest that is empty or starts with such a token. A
  variadic option hands it the tokens after the flag and consumes one token more than it
  collects; a variadic argument hands it the remaining tokens and consumes what it
  collects. On the tokens \<open>build push\<close>, with \<open>push\<close> a subcommand and the first
  argument variadic, the scan ends with the argument \<open>[build]\<close> and the unparsed tail
  \<open>[push]\<close>.
\<close>

theorem handlerVariadic_boundary:
  "(\<exists>rest. tokens = handlerVariadic tokens subs @ rest
      \<and> list_all (\<lambda>t. \<not> isSubcommand t subs \<and> \<not> isOption t) (handlerVariadic tokens subs)
      \<and> (case rest of [] \<Rightarrow> True | t # ts \<Rightarrow> isSubcommand t subs \<or> isOption t))
   \<and> (find (optionMatches (kebabToCamelCase token)) (cfg_options cfg) = Some m
        \<and> optKind m = Variadic \<and> isFlag token \<longrightarrow>
      parseCommandOption token (token # following) cfg =
        Inr ([kebabToCamelCase (longFlag m)
                \<mapsto> VArr (handlerVariadic following (cfg_subcommands cfg))],
             length (handlerVariadic following (cfg_subcommands cfg)) + 1))
   \<and> (argIndex < length (cfg_arguments cfg)
        \<and> argKind (cfg_arguments cfg ! argIndex) = ArgVariadic \<longrightarrow>
      parseCommandArgument tokens cfg argIndex =
        Inr ([kebabToCamelCase (argName (cfg_arguments cfg ! argIndex))
                \<mapsto> VArr (handlerVariadic tokens (cfg_subcommands cfg))],
             length (handlerVariadic tokens (cfg_subcommands cfg))))
   \<and> (cfg_arguments cfg = a # as \<and> argKind a = ArgVariadic
        \<and> isSubcommand ''push'' (cfg_subcommands cfg)
        \<and> \<not> isSubcommand ''build'' (cfg_subcommands cfg) \<longrightarrow>
      parseLoop cfg [''build'', ''push''] 0 0 emptyInput =
        Some (Inr (Finished \<lparr>args = [kebabToCamelCase (argName a) \<mapsto> VArr [''build'']],
                              options = Map.empty, unparsed = [''push'']\<rparr>)))"
  using handlerVariadic_append [of tokens subs] handlerVariadic_collected [of subs tokens]
    variadic_option_collects [of token cfg m following]
    variadic_argument_collects [of argIndex cfg tokens]
    variadic_argument_then_subcommand [of cfg a as]
  by blast

theorem handlerVariadic_boundary_witness:
  "cfg_arguments gitCli ! 0 = \<lparr>argName = ''files'', argKind = ArgVariadic, argDefault = None,
       argChoices = None, argOptional = True\<rparr>
   \<and> isSubcommand ''push'' (cfg_subcommands gitCli)
   \<and> \<not> isSubcommand ''build'' (cfg_subcommands gitCli)
   \<and> handlerVariadic [''build'', ''push''] (cfg_subcommands gitCli) = [''build'']
   \<and> parseCommandArgument [''build'', ''push''] gitCli 0
        = Inr ([''files'' \<mapsto> VArr [''build'']], 1)
   \<and> parseLoop gitCli [''build'', ''push''] 0 0 emptyInput =
        Some (Inr (Finished \<lparr>args = [''files'' \<mapsto> VArr [''build'']],
                              options = Map.empty, unparsed = [''push'']\<rparr>))
   \<and> parseRuntime gitCli [''build'', ''push''] =
        Some (Inr \<lparr>args = [''files'' \<mapsto> VArr [''build'']],
                    options = Map.empty, unparsed = [''push'']\<rparr>)
   \<and> find (optionMatches (kebabToCamelCase ''--tags'')) (cfg_options tagsCli) = Some tagsOption
   \<and> optKind tagsOption = Variadic \<and> isFlag ''--tags''
   \<and> parseCommandOption ''--tags'' [''--tags'', ''a'', ''b'', ''--dry-run''] tagsCli =
        Inr ([''tags'' \<mapsto> VArr [''a'', ''b'']], 3)"
  using handlerVariadic_boundary [of "[''build'', ''push'']" "cfg_subcommands gitCli"
      "''--tags''" gitCli tagsOption "[]" 0
      "\<lparr>argName = ''files'', argKind = ArgVariadic, argDefault = None,
        argChoices = None, argOptional = True\<rparr>" "[]"]
    handlerVariadic_boundary [of "[''a'', ''b'', ''--dry-run'']" "cfg_subcommands tagsCli"
      "''--tags''" tagsCli tagsOption "[''a'', ''b'', ''--dry-run'']" 0 tagsArgument "[]"]
  by (simp add: gitCli_def commitCmd_def pushCmd_def tagsCli_def tagsOption_def
        tagsArgument_def model_defs)

section \<open>Options that take a value\<close>

text \<open>
  C1: a \<open>value\<close> option whose flag is the last token. The value is \<open>tokens[index + 1]\<close>,
  which is \<open>undefined\<close>; the test after the \<open>switch\<close> is \<open>optionValue === null\<close>, so
  nothing is thrown there. With \<open>optional: true\<close> the parse succeeds and the result
  holds \<open>undefined\<close> under the option's key; with \<open>optional: false\<close> the parse fails
  later, with the error of a missing required option.
\<close>

theorem value_option_without_value:
  "parseRuntime (valueCli True) [''--output''] =
     Some (Inr \<lparr>args = Map.empty, options = [''output'' \<mapsto> VUndefined], unparsed = []\<rparr>)
   \<and> parseRuntime (valueCli False) [''--output''] =
     Some (Inl (RequiredOptionMissing ''--output''))
   \<and> parseCommandOption ''--output'' [''--output''] (valueCli True) =
     Inr ([''output'' \<mapsto> VUndefined], 2)"
  by (simp add: valueCli_def model_defs)

text \<open>
  C5: an \<open>inline\<close> option. The value is cut out of the normalised token
  (\<open>flagName.split('=')[1]\<close>), not out of the token: \<open>--output=dist/\<close> gives
  \<open>dist/\<close>, but \<open>--output=my-dir\<close> gives \<open>myDir\<close> and \<open>--output=a=b\<close> gives \<open>a\<close>.
  One token is consumed.
\<close>

theorem inline_option_value:
  "parseRuntime inlineCli [''--output=dist/''] =
     Some (Inr \<lparr>args = Map.empty, options = [''output'' \<mapsto> VStr ''dist/''], unparsed = []\<rparr>)
   \<and> parseCommandOption ''--output=dist/'' [''--output=dist/''] inlineCli =
     Inr ([''output'' \<mapsto> VStr ''dist/''], 1)
   \<and> parseRuntime inlineCli [''--output=my-dir''] =
     Some (Inr \<lparr>args = Map.empty, options = [''output'' \<mapsto> VStr ''myDir''], unparsed = []\<rparr>)
   \<and> parseRuntime inlineCli [''--output=a=b''] =
     Some (Inr \<lparr>args = Map.empty, options = [''output'' \<mapsto> VStr ''a''], unparsed = []\<rparr>)"
  by (simp add: inlineCli_def model_defs)

section \<open>Defaults and choices in the declaration validator\<close>

text \<open>
  C6: a default that is a list is accepted as soon as one of the choices is among its
  elements: the test is \<open>choices.some((choice) => defaultValues.includes(choice))\<close>.
  The default \<open>[a, zzz]\<close> with the choices \<open>[a, b]\<close> passes the validator, for an
  argument and for an option, and parsing no tokens then yields that default.
\<close>

theorem default_outside_choices_accepted:
  "validateArguments [tagsArgument] = Inr ()
   \<and> validateOptions [tagsOption] = Inr ()
   \<and> validateConfig tagsCli = Inr ()
   \<and> parseRuntime tagsCli [] =
       Some (Inr \<lparr>args = [''tags'' \<mapsto> VArr [''a'', ''zzz'']],
                   options = [''tags'' \<mapsto> VArr [''a'', ''zzz'']], unparsed = []\<rparr>)"
  by (simp add: tagsCli_def tagsArgument_def tagsOption_def model_defs)

section \<open>Validation of the subcommands\<close>

lemma validateSubcommandsFrom_all:
  "validateSubcommandsFrom seen subs = Inr () \<Longrightarrow> sub \<in> set subs
   \<Longrightarrow> validateConfig sub = Inr ()"
  by (induction subs arbitrary: seen) (auto split: if_splits sum.splits)

lemma validateConfig_subcommands:
  "validateConfig cfg = Inr () \<Longrightarrow> validateSubcommandsFrom {} (cfg_subcommands cfg) = Inr ()"
  by (cases cfg) (auto split: sum.splits)

text \<open>
  C4, as the code has it: the validation is eager. \<open>validateConfig\<close> ends with
  \<open>validateSubcommands\<close>, which calls \<open>validateConfig\<close> on every subcommand, so every
  parse of a command validates the declarations of the whole tree below it. When the
  declaration of a subcommand is invalid, the declaration of the command is invalid and
  every parse of the command fails with that declaration error, whatever the tokens.
\<close>

theorem subcommands_validated_eagerly:
  assumes "sub \<in> set (cfg_subcommands cfg)" and "validateConfig sub = Inl e"
  shows "\<exists>e'. validateConfig cfg = Inl e' \<and> parseRuntime cfg tokens = Some (Inl e')"
proof (cases "validateConfig cfg")
  case (Inl e')
  then show ?thesis by (simp add: parseRuntime_def)
next
  case (Inr u)
  then have "validateConfig sub = Inr ()"
    using assms(1) validateConfig_subcommands validateSubcommandsFrom_all by auto
  with assms(2) show ?thesis by simp
qed

theorem subcommands_validated_eagerly_witness:
  "badFlagCmd \<in> set (cfg_subcommands (toolCli badFlagCmd))
   \<and> validateConfig badFlagCmd = Inl (InvalidFlag LongFlag ''--port number'')
   \<and> (\<exists>e'. validateConfig (toolCli badFlagCmd) = Inl e'
         \<and> parseRuntime (toolCli badFlagCmd) [''--help''] = Some (Inl e'))"
  using subcommands_validated_eagerly [of badFlagCmd "toolCli badFlagCmd"
      "InvalidFlag LongFlag ''--port number''" "[''--help'']"]
  by (simp add: toolCli_def badFlagCmd_def model_defs)

text \<open>
  C4, as the claim has it, fails: no token is given, so the subcommand \<open>build\<close> is never
  reached, and the parse of the command fails all the same on the two arguments of
  \<open>build\<close> that share a name.
\<close>

theorem lazy_validation_counterexample:
  "validateConfig (Config ''tool'' ''1.0.0'' False False [] [] [] [0] []) = Inr ()
   \<and> parseRuntime (toolCli duplicateArgsCmd) [] = Some (Inl (DuplicateArgumentName ''entry''))"
  by (simp add: toolCli_def duplicateArgsCmd_def model_defs)

section \<open>The help flag\<close>

lemma help_token_value:
  assumes "find (optionMatches (kebabToCamelCase ''--help'')) (cfg_options cfg) = Some m"
    and "optKind m \<noteq> Inline"
  shows "\<exists>v consumed.
      parseCommandOption ''--help'' [''--help''] cfg = Inr ([optionKey m \<mapsto> v], consumed)
      \<and> (optKind m = Flag \<longrightarrow> v = VBool True) \<and> (optKind m = Variadic \<longrightarrow> v = VArr [])"
  using assms
  by (cases "optKind m") (auto simp: parseCommandOption_def isFlag_def slice_def)

lemma help_token_returns:
  assumes "\<not> cfg_hidden_help cfg"
    and "parseCommandOption ''--help'' [''--help''] cfg = Inr ([key \<mapsto> v], consumed)"
  shows "parseLoop cfg [''--help''] 0 0 emptyInput =
      Some (Inr (Returned \<lparr>args = Map.empty, options = setProp Map.empty key v,
                            unparsed = []\<rparr>))"
  using assms
  by (simp add: parseLoop.simps isOption_def isFlag_def emptyInput_def)

text \<open>
  C2, as the code has it: the declaration is validated before any token is read, and
  the token \<open>--help\<close> is given to the first declared option, in declaration order,
  whose normalised long or short flag matches it. When the declaration is valid, help is
  not hidden and that option is not an inline option, the loop is left by
  \<open>return input\<close>: the result holds what was assigned under that option's key, which
  is \<open>true\<close> for a flag and the empty list for a variadic option, and nothing else, and
  the checks after the loop (required fields, defaults, choices) do not run, whatever
  fields are declared.
\<close>

theorem help_short_circuit:
  assumes "validateConfig cfg = Inr ()" and "\<not> cfg_hidden_help cfg"
    and "find (optionMatches (kebabToCamelCase ''--help'')) (cfg_options cfg) = Some m"
    and "optKind m \<noteq> Inline"
  shows "\<exists>v. parseLoop cfg [''--help''] 0 0 emptyInput =
            Some (Inr (Returned \<lparr>args = Map.empty, options = setProp Map.empty (optionKey m) v,
                                  unparsed = []\<rparr>))
        \<and> parseRuntime cfg [''--help''] =
            Some (Inr \<lparr>args = Map.empty, options = setProp Map.empty (optionKey m) v,
                        unparsed = []\<rparr>)
        \<and> (optKind m = Flag \<longrightarrow> v = VBool True)
        \<and> (optKind m = Variadic \<longrightarrow> v = VArr [])"
proof -
  obtain v consumed where
    v: "parseCommandOption ''--help'' [''--help''] cfg = Inr ([optionKey m \<mapsto> v], consumed)"
      "optKind m = Flag \<longrightarrow> v = VBool True" "optKind m = Variadic \<longrightarrow> v = VArr []"
    using help_token_value [OF assms(3,4)] by blast
  have "parseLoop cfg [''--help''] 0 0 emptyInput =
      Some (Inr (Returned \<lparr>args = Map.empty, options = setProp Map.empty (optionKey m) v,
                            unparsed = []\<rparr>))"
    using assms(2) v(1) by (rule help_token_returns)
  with assms(1) v(2,3) show ?thesis by (auto simp: parseRuntime_def)
qed

theorem help_short_circuit_witness:
  "validateConfig myCli = Inr () \<and> \<not> cfg_hidden_help myCli
   \<and> find (optionMatches (kebabToCamelCase ''--help'')) (cfg_options myCli) = Some helpOption
   \<and> optKind helpOption = Flag
   \<and> parseRuntime myCli [''--help''] =
       Some (Inr \<lparr>args = Map.empty, options = [''help'' \<mapsto> VBool True], unparsed = []\<rparr>)
   \<and> parseRuntime myCli [] = Some (Inl (RequiredOptionMissing ''--output''))
   \<and> validateConfig helpTopicsCli = Inr () \<and> \<not> cfg_hidden_help helpTopicsCli
   \<and> find (optionMatches (kebabToCamelCase ''--help'')) (cfg_options helpTopicsCli)
        = Some helpTopicsOption
   \<and> optKind helpTopicsOption = Variadic
   \<and> parseRuntime helpTopicsCli [''--help''] =
       Some (Inr \<lparr>args = Map.empty, options = [''help'' \<mapsto> VArr []], unparsed = []\<rparr>)
   \<and> parseRuntime helpTopicsCli [] = Some (Inl (RequiredOptionMissing ''--output''))
   \<and> validateConfig protoCli = Inr () \<and> \<not> cfg_hidden_help protoCli
   \<and> find (optionMatches (kebabToCamelCase ''--help'')) (cfg_options protoCli)
        = Some protoOption
   \<and> optKind protoOption = Flag \<and> optionKey protoOption = ''__proto__''
   \<and> parseRuntime protoCli [''--help''] =
       Some (Inr \<lparr>args = Map.empty, options = Map.empty, unparsed = []\<rparr>)"
  using help_short_circuit [of myCli helpOption]
    help_short_circuit [of helpTopicsCli helpTopicsOption]
    help_short_circuit [of protoCli protoOption]
  by (simp add: myCli_def helpTopicsCli_def protoCli_def helpOption_def helpTopicsOption_def
        protoOption_def versionOption_def outputOption_def inputArgument_def model_defs)

text \<open>
  C2, as the claim has it, fails: \<open>--help\<close> is a declared flag option and help is not
  hidden, but the inline option \<open>-help\<close> declared before it has the same normalised
  name; it takes the token and, finding no \<open>=\<close> in it, raises an error. It fails too
  when the declaration is not valid, as for a command that was given no name.
\<close>

theorem help_short_circuit_counterexample:
  "validateConfig shadowedHelpCli = Inr ()
   \<and> helpOption \<in> set (cfg_options shadowedHelpCli)
   \<and> \<not> cfg_hidden_help shadowedHelpCli
   \<and> parseRuntime shadowedHelpCli [''--help''] = Some (Inl (UnexpectedOption ''--help''))
   \<and> helpOption \<in> set (cfg_options (namelessCli [helpOption, versionOption]))
   \<and> \<not> cfg_hidden_help (namelessCli [helpOption, versionOption])
   \<and> parseRuntime (namelessCli [helpOption, versionOption]) [''--help'']
       = Some (Inl CommandNameRequired)"
  by (simp add: shadowedHelpCli_def namelessCli_def helpOption_def versionOption_def model_defs)

section \<open>The checks after the scan\<close>

lemma validateChoices_error:
  "validateChoices variant v nm choices = Inl e \<Longrightarrow> invalidChoiceError e"
  by (auto simp: validateChoices_def split: option.splits)

lemma checkOptions_error:
  "checkOptions opts obj = Inl e \<Longrightarrow> requiredFieldError e \<or> invalidChoiceError e"
proof (induction opts arbitrary: obj)
  case Nil
  then show ?case by simp
next
  case (Cons x xs)
  then show ?case
    by (auto simp: Let_def split: if_splits option.splits sum.splits dest: validateChoices_error)
qed

lemma checkArguments_error:
  "checkArguments as obj = Inl e \<Longrightarrow> requiredFieldError e \<or> invalidChoiceError e"
proof (induction as arbitrary: obj)
  case Nil
  then show ?case by simp
next
  case (Cons x xs)
  then show ?case
    by (auto simp: Let_def split: if_splits option.splits sum.splits dest: validateChoices_error)
qed

lemma prototypeOf_update:
  "key \<noteq> ''__proto__'' \<Longrightarrow> prototypeOf (obj(key \<mapsto> v)) = prototypeOf obj"
  by (simp add: prototypeOf_def)

lemma getProp_setProp_other:
  "key \<noteq> ''__proto__'' \<Longrightarrow> key \<noteq> k \<Longrightarrow> getProp (setProp obj key v) k = getProp obj k"
  by (cases "obj k") (simp_all add: getProp_def setProp_def prototypeOf_update)

lemma setProp_proto_scalar: "\<not> isArray v \<Longrightarrow> setProp obj ''__proto__'' v = obj"
  by (simp add: setProp_def)

lemma withDefault_unfilled:
  assumes "\<not> fills d key k"
  shows "getProp (withDefault d key obj) k = getProp obj k"
proof (cases d)
  case None
  then show ?thesis by (simp add: withDefault_def)
next
  case (Some v)
  show ?thesis
  proof (cases "truthy v")
    case False
    with Some show ?thesis by (simp add: withDefault_def)
  next
    case True
    show ?thesis
    proof (cases "key = ''__proto__''")
      case True
      with assms Some \<open>truthy v\<close> have "\<not> isArray v" by (simp add: fills_def)
      then have "setProp obj key v = obj" using True by (simp add: setProp_proto_scalar)
      with Some show ?thesis by (simp add: withDefault_def)
    next
      case False
      with assms Some \<open>truthy v\<close> have "key \<noteq> k" by (simp add: fills_def)
      with False have "getProp (setProp obj key v) k = getProp obj k"
        by (rule getProp_setProp_other)
      with Some show ?thesis by (simp add: withDefault_def)
    qed
  qed
qed

lemma checkOptions_keeps:
  assumes "checkOptions opts obj = Inr obj'"
    and "\<forall>other\<in>set opts. takesValue (optKind other)
            \<longrightarrow> \<not> fills (optDefault other) (optionKey other) k"
  shows "getProp obj' k = getProp obj k"
  using assms
proof (induction opts arbitrary: obj)
  case Nil
  then show ?case by simp
next
  case (Cons x xs)
  show ?case
  proof (cases "takesValue (optKind x)")
    case False
    then have "checkOptions (x # xs) obj = checkOptions xs obj"
      by (simp add: takesValue_def)
    with Cons show ?thesis by simp
  next
    case True
    let ?obj = "withDefault (optDefault x) (optionKey x) obj"
    have "checkOptions xs ?obj = Inr obj'"
      using Cons.prems(1) True
      by (auto simp: takesValue_def Let_def split: if_splits sum.splits)
    then have "getProp obj' k = getProp ?obj k"
      using Cons.prems(2) by (intro Cons.IH) simp_all
    moreover have "getProp ?obj k = getProp obj k"
      using Cons.prems(2) True by (intro withDefault_unfilled) simp
    ultimately show ?thesis by simp
  qed
qed

lemma checkArguments_keeps:
  assumes "checkArguments as obj = Inr obj'"
    and "\<forall>other\<in>set as. \<not> fills (argDefault other) (argumentKey other) k"
  shows "getProp obj' k = getProp obj k"
  using assms
proof (induction as arbitrary: obj)
  case Nil
  then show ?case by simp
next
  case (Cons x xs)
  let ?obj = "withDefault (argDefault x) (argumentKey x) obj"
  have "checkArguments xs ?obj = Inr obj'"
    using Cons.prems(1) by (auto simp: Let_def split: if_splits sum.splits)
  then have "getProp obj' k = getProp ?obj k"
    using Cons.prems(2) by (intro Cons.IH) simp_all
  moreover have "getProp ?obj k = getProp obj k"
    using Cons.prems(2) by (intro withDefault_unfilled) simp
  ultimately show ?case by simp
qed

lemma checkOptions_append:
  "checkOptions (xs @ ys) obj =
     (case checkOptions xs obj of Inl e \<Rightarrow> Inl e | Inr obj' \<Rightarrow> checkOptions ys obj')"
  by (induction xs arbitrary: obj) (auto simp: Let_def split: sum.splits)

lemma checkArguments_append:
  "checkArguments (xs @ ys) obj =
     (case checkArguments xs obj of Inl e \<Rightarrow> Inl e | Inr obj' \<Rightarrow> checkArguments ys obj')"
  by (induction xs arbitrary: obj) (auto simp: Let_def split: sum.splits)

lemma checkOptions_required:
  assumes "takesValue (optKind opt)" and "\<not> optOptional opt"
    and "\<not> truthy (getProp obj (optionKey opt))"
    and "\<forall>other\<in>set earlier. takesValue (optKind other)
            \<longrightarrow> \<not> fills (optDefault other) (optionKey other) (optionKey opt)"
  shows "checkOptions (earlier @ opt # later) obj =
    Inl (case checkOptions earlier obj of
           Inl e \<Rightarrow> e
         | Inr obj' \<Rightarrow> RequiredOptionMissing (longFlag opt))"
proof (cases "checkOptions earlier obj")
  case (Inl e)
  then show ?thesis by (simp add: checkOptions_append)
next
  case (Inr obj')
  then have "getProp obj' (optionKey opt) = getProp obj (optionKey opt)"
    using assms(4) by (rule checkOptions_keeps)
  with assms(3) have "\<not> truthy (getProp obj' (optionKey opt))" by simp
  then have "checkOptions (opt # later) obj' = Inl (RequiredOptionMissing (longFlag opt))"
    using assms(1,2) by (auto simp: takesValue_def)
  with Inr show ?thesis by (simp add: checkOptions_append)
qed

lemma checkArguments_required:
  assumes "\<not> argOptional arg"
    and "\<not> truthy (getProp obj (argumentKey arg))"
    and "\<forall>other\<in>set earlier. \<not> fills (argDefault other) (argumentKey other) (argumentKey arg)"
  shows "checkArguments (earlier @ arg # later) obj =
    Inl (case checkArguments earlier obj of
           Inl e \<Rightarrow> e
         | Inr obj' \<Rightarrow> RequiredArgumentMissing (argName arg))"
proof (cases "checkArguments earlier obj")
  case (Inl e)
  then show ?thesis by (simp add: checkArguments_append)
next
  case (Inr obj')
  then have "getProp obj' (argumentKey arg) = getProp obj (argumentKey arg)"
    using assms(3) by (rule checkArguments_keeps)
  with assms(2) have "\<not> truthy (getProp obj' (argumentKey arg))" by simp
  then have "checkArguments (arg # later) obj' = Inl (RequiredArgumentMissing (argName arg))"
    using assms(1) by simp
  with Inr show ?thesis by (simp add: checkArguments_append)
qed

lemma checkOptions_flags_exempt:
  "checkOptions (filter (\<lambda>opt. takesValue (optKind opt)) opts) obj = checkOptions opts obj"
  by (induction opts arbitrary: obj)
     (auto simp: takesValue_def Let_def split: sum.splits option.splits)

text \<open>
  C3, as the code has it. Take a valid declaration and tokens whose scan ends without an
  error and without the return on help or version. Take a field that is not optional
  and for which the scan left no truthy value to read under its key (read as the source
  reads it, through the prototype chain when the key is not an own property), and such
  that the default of no field checked before it in the same list can change what that
  key reads as.

  If the field is an option of kind \<open>value\<close>, \<open>inline\<close> or \<open>variadic\<close>, the parse
  fails: with the error that the checks of the options declared before it raise, if
  they raise one, and else with the error that this required option is missing. If the
  field is a positional argument, the parse fails: with the error that the checks of the
  options raise, if they raise one, else with the error that the checks of the arguments
  declared before it raise, if they raise one, and else with the error that this
  required argument is missing. An error that these checks raise is that of a missing
  required field or that of a value outside the choices. Options of kind \<open>flag\<close> are
  skipped by these checks.
\<close>

theorem required_fields_enforced:
  assumes valid: "validateConfig cfg = Inr ()"
    and scan: "parseLoop cfg tokens 0 0 emptyInput = Some (Inr (Finished inp))"
  shows "(cfg_options cfg = earlier @ opt # later
          \<and> takesValue (optKind opt) \<and> \<not> optOptional opt
          \<and> \<not> truthy (getProp (options inp) (optionKey opt))
          \<and> (\<forall>other\<in>set earlier. takesValue (optKind other)
                \<longrightarrow> \<not> fills (optDefault other) (optionKey other) (optionKey opt))
        \<longrightarrow> parseRuntime cfg tokens =
              Some (Inl (case checkOptions earlier (options inp) of
                           Inl e \<Rightarrow> e
                         | Inr obj' \<Rightarrow> RequiredOptionMissing (longFlag opt))))
     \<and> (cfg_arguments cfg = before @ arg # behind
          \<and> \<not> argOptional arg
          \<and> \<not> truthy (getProp (args inp) (argumentKey arg))
          \<and> (\<forall>other\<in>set before.
                \<not> fills (argDefault other) (argumentKey other) (argumentKey arg))
        \<longrightarrow> parseRuntime cfg tokens =
              Some (Inl (case checkOptions (cfg_options cfg) (options inp) of
                           Inl e \<Rightarrow> e
                         | Inr obj' \<Rightarrow>
                            (case checkArguments before (args inp) of
                               Inl e \<Rightarrow> e
                             | Inr obj'' \<Rightarrow> RequiredArgumentMissing (argName arg)))))
     \<and> (checkOptions opts obj = Inl e \<longrightarrow> requiredFieldError e \<or> invalidChoiceError e)
     \<and> (checkArguments as obj = Inl e \<longrightarrow> requiredFieldError e \<or> invalidChoiceError e)
     \<and> checkOptions (cfg_options cfg) obj
         = checkOptions (filter (\<lambda>opt. takesValue (optKind opt)) (cfg_options cfg)) obj"
proof (intro conjI impI)
  assume a: "cfg_options cfg = earlier @ opt # later
          \<and> takesValue (optKind opt) \<and> \<not> optOptional opt
          \<and> \<not> truthy (getProp (options inp) (optionKey opt))
          \<and> (\<forall>other\<in>set earlier. takesValue (optKind other)
                \<longrightarrow> \<not> fills (optDefault other) (optionKey other) (optionKey opt))"
  then have "checkOptions (cfg_options cfg) (options inp) =
      Inl (case checkOptions earlier (options inp) of
             Inl e \<Rightarrow> e
           | Inr obj' \<Rightarrow> RequiredOptionMissing (longFlag opt))"
    using checkOptions_required [of opt "options inp" earlier later] by simp
  with valid scan show "parseRuntime cfg tokens =
      Some (Inl (case checkOptions earlier (options inp) of
                   Inl e \<Rightarrow> e
                 | Inr obj' \<Rightarrow> RequiredOptionMissing (longFlag opt)))"
    by (simp add: parseRuntime_def)
next
  assume a: "cfg_arguments cfg = before @ arg # behind
          \<and> \<not> argOptional arg
          \<and> \<not> truthy (getProp (args inp) (argumentKey arg))
          \<and> (\<forall>other\<in>set before.
                \<not> fills (argDefault other) (argumentKey other) (argumentKey arg))"
  then have args: "checkArguments (cfg_arguments cfg) (args inp) =
      Inl (case checkArguments before (args inp) of
             Inl e \<Rightarrow> e
           | Inr obj'' \<Rightarrow> RequiredArgumentMissing (argName arg))"
    using checkArguments_required [of arg "args inp" before behind] by simp
  show "parseRuntime cfg tokens =
      Some (Inl (case checkOptions (cfg_options cfg) (options inp) of
                   Inl e \<Rightarrow> e
                 | Inr obj' \<Rightarrow>
                    (case checkArguments before (args inp) of
                       Inl e \<Rightarrow> e
                     | Inr obj'' \<Rightarrow> RequiredArgumentMissing (argName arg))))"
  proof (cases "checkOptions (cfg_options cfg) (options inp)")
    case (Inl e)
    with valid scan show ?thesis by (simp add: parseRuntime_def)
  next
    case (Inr obj')
    with valid scan args show ?thesis by (simp add: parseRuntime_def)
  qed
next
  assume "checkOptions opts obj = Inl e"
  then show "requiredFieldError e \<or> invalidChoiceError e" by (rule checkOptions_error)
next
  assume "checkArguments as obj = Inl e"
  then show "requiredFieldError e \<or> invalidChoiceError e" by (rule checkArguments_error)
next
  show "checkOptions (cfg_options cfg) obj
         = checkOptions (filter (\<lambda>opt. takesValue (optKind opt)) (cfg_options cfg)) obj"
    by (simp add: checkOptions_flags_exempt)
qed

theorem required_fields_enforced_witness:
  "validateConfig myCli = Inr ()
   \<and> parseLoop myCli [] 0 0 emptyInput = Some (Inr (Finished emptyInput))
   \<and> cfg_options myCli = [] @ outputOption # [helpOption, versionOption]
   \<and> takesValue (optKind outputOption) \<and> \<not> optOptional outputOption
   \<and> \<not> truthy (getProp (options emptyInput) (optionKey outputOption))
   \<and> parseRuntime myCli [] = Some (Inl (RequiredOptionMissing ''--output''))
   \<and> parseLoop myCli [''-o'', ''dist''] 0 0 emptyInput =
        Some (Inr (Finished \<lparr>args = Map.empty, options = [''output'' \<mapsto> VStr ''dist''],
                              unparsed = []\<rparr>))
   \<and> cfg_arguments myCli = [] @ inputArgument # [] \<and> \<not> argOptional inputArgument
   \<and> parseRuntime myCli [''-o'', ''dist''] = Some (Inl (RequiredArgumentMissing ''input''))
   \<and> validateConfig choiceFirstCli = Inr ()
   \<and> cfg_options choiceFirstCli = [modeOption] @ outputOption # []
   \<and> \<not> fills (optDefault modeOption) (optionKey modeOption) (optionKey outputOption)
   \<and> parseRuntime choiceFirstCli [''--mode'', ''production''] =
        Some (Inl (RequiredOptionMissing ''--output''))
   \<and> parseRuntime choiceFirstCli [''--mode'', ''fast''] =
        Some (Inl (ValueNotInChoices OptionField (VStr ''fast'') ''--mode''))"
  using
    required_fields_enforced [where cfg = myCli and tokens = "[]" and inp = emptyInput
      and earlier = "[]" and opt = outputOption and later = "[helpOption, versionOption]"
      and before = "[]" and arg = inputArgument and behind = "[]"
      and opts = "[]" and obj = Map.empty and e = CommandNameRequired and as = "[]"]
    required_fields_enforced [where cfg = myCli and tokens = "[''-o'', ''dist'']"
      and inp = "\<lparr>args = Map.empty, options = [''output'' \<mapsto> VStr ''dist''], unparsed = []\<rparr>"
      and earlier = "[]" and opt = outputOption and later = "[helpOption, versionOption]"
      and before = "[]" and arg = inputArgument and behind = "[]"
      and opts = "[]" and obj = Map.empty and e = CommandNameRequired and as = "[]"]
    required_fields_enforced [where cfg = choiceFirstCli
      and tokens = "[''--mode'', ''production'']"
      and inp = "\<lparr>args = Map.empty, options = [''mode'' \<mapsto> VStr ''production''],
                  unparsed = []\<rparr>"
      and earlier = "[modeOption]" and opt = outputOption and later = "[]"
      and before = "[]" and arg = inputArgument and behind = "[]"
      and opts = "[]" and obj = Map.empty and e = CommandNameRequired and as = "[]"]
    required_fields_enforced [where cfg = choiceFirstCli and tokens = "[''--mode'', ''fast'']"
      and inp = "\<lparr>args = Map.empty, options = [''mode'' \<mapsto> VStr ''fast''], unparsed = []\<rparr>"
      and earlier = "[modeOption]" and opt = outputOption and later = "[]"
      and before = "[]" and arg = inputArgument and behind = "[]"
      and opts = "[]" and obj = Map.empty and e = CommandNameRequired and as = "[]"]
  by (simp add: myCli_def choiceFirstCli_def modeOption_def helpOption_def versionOption_def
        outputOption_def inputArgument_def fills_def model_defs)

text \<open>
  C3, as the claim has it, fails for an option of kind \<open>flag\<close>: \<open>--dry-run\<close> is not
  optional and has no default, no token supplies it, and the parse succeeds. Three more
  inputs show what else the statement above needs. The required option \<open>--outDir\<close> is
  not supplied, and the parse succeeds, because the default of \<open>--out-dir\<close> was stored
  under the same key before. The required option \<open>--output\<close> is not supplied, and the
  error is the one of the choices of \<open>--mode\<close>, which is checked first. The required
  option \<open>--to-string\<close> is not supplied, and the parse succeeds, because its key reads as
  the method \<open>toString\<close> that every object inherits.
\<close>

theorem required_flag_counterexample:
  "list_all (\<lambda>opt. optKind opt = Flag \<and> \<not> optOptional opt \<and> optDefault opt = None)
     (cfg_options dryRunCli)
   \<and> parseRuntime dryRunCli [] =
       Some (Inr \<lparr>args = Map.empty, options = Map.empty, unparsed = []\<rparr>)
   \<and> parseRuntime maskedRequiredCli [] =
       Some (Inr \<lparr>args = Map.empty, options = [''outDir'' \<mapsto> VStr ''a''], unparsed = []\<rparr>)
   \<and> parseRuntime choiceFirstCli [''--mode'', ''fast''] =
       Some (Inl (ValueNotInChoices OptionField (VStr ''fast'') ''--mode''))
   \<and> parseRuntime (toStringCli False None) [] =
       Some (Inr \<lparr>args = Map.empty, options = Map.empty, unparsed = []\<rparr>)"
  by (simp add: dryRunCli_def maskedRequiredCli_def choiceFirstCli_def toStringCli_def
        modeOption_def outputOption_def model_defs)

section \<open>Defaults on an empty token list\<close>

lemma validateChoices_undefined: "validateChoices variant VUndefined nm choices = Inr ()"
  by (simp add: validateChoices_def)

lemma proto_is_member: "''__proto__'' \<in> set objectPrototypeMembers"
  by (simp add: objectPrototypeMembers_def)

lemma getProp_absent:
  assumes "obj key = None" and "obj ''__proto__'' = None"
    and "key \<notin> set objectPrototypeMembers"
  shows "getProp obj key = VUndefined"
  using assms by (simp add: getProp_def prototypeOf_def inherited_def)

lemma withDefault_fresh:
  assumes "obj key = None" and "obj ''__proto__'' = None"
    and "key \<notin> set objectPrototypeMembers" and "given d"
  shows "withDefault d key obj = obj(key := d)"
proof -
  have "key \<noteq> ''__proto__''" using assms(3) proto_is_member by auto
  moreover have "getProp obj key = VUndefined" using assms(1,2,3) by (rule getProp_absent)
  ultimately show ?thesis
    using assms(4) by (cases d) (simp_all add: withDefault_def given_def setProp_def)
qed

lemma checkOptions_defaults:
  assumes "\<forall>opt\<in>set opts. takesValue (optKind opt) \<longrightarrow> optOptional opt \<and> given (optDefault opt)"
    and "distinct (map optionKey (filter (\<lambda>opt. takesValue (optKind opt)) opts))"
    and "\<forall>opt\<in>set opts. takesValue (optKind opt) \<longrightarrow> obj (optionKey opt) = None"
    and "\<forall>opt\<in>set opts. takesValue (optKind opt)
            \<longrightarrow> optionKey opt \<notin> set objectPrototypeMembers"
    and "obj ''__proto__'' = None"
  shows "\<exists>obj'. checkOptions opts obj = Inr obj'
      \<and> (\<forall>opt\<in>set opts. takesValue (optKind opt) \<longrightarrow> obj' (optionKey opt) = optDefault opt)
      \<and> (\<forall>k. k \<notin> optionKey ` {opt \<in> set opts. takesValue (optKind opt)} \<longrightarrow> obj' k = obj k)"
  using assms
proof (induction opts arbitrary: obj)
  case Nil
  then show ?case by simp
next
  case (Cons x xs)
  show ?case
  proof (cases "takesValue (optKind x)")
    case False
    then have same: "checkOptions (x # xs) obj = checkOptions xs obj"
      by (simp add: takesValue_def)
    have "\<exists>obj'. checkOptions xs obj = Inr obj'
      \<and> (\<forall>opt\<in>set xs. takesValue (optKind opt) \<longrightarrow> obj' (optionKey opt) = optDefault opt)
      \<and> (\<forall>k. k \<notin> optionKey ` {opt \<in> set xs. takesValue (optKind opt)} \<longrightarrow> obj' k = obj k)"
      using Cons.prems False by (intro Cons.IH) simp_all
    then obtain obj' where o: "checkOptions xs obj = Inr obj'"
      "\<forall>opt\<in>set xs. takesValue (optKind opt) \<longrightarrow> obj' (optionKey opt) = optDefault opt"
      "\<forall>k. k \<notin> optionKey ` {opt \<in> set xs. takesValue (optKind opt)} \<longrightarrow> obj' k = obj k"
      by blast
    have "{opt \<in> set (x # xs). takesValue (optKind opt)} = {opt \<in> set xs. takesValue (optKind opt)}"
      using False by auto
    with o same False show ?thesis by auto
  next
    case True
    let ?key = "optionKey x"
    let ?obj = "obj(?key := optDefault x)"
    have none: "obj ?key = None" using Cons.prems(3) True by simp
    have opt: "optOptional x" and giv: "given (optDefault x)" using Cons.prems(1) True by simp_all
    have plain: "?key \<notin> set objectPrototypeMembers" using Cons.prems(4) True by simp
    then have noproto: "?key \<noteq> ''__proto__''" using proto_is_member by auto
    have undef: "getProp obj ?key = VUndefined"
      using none Cons.prems(5) plain by (rule getProp_absent)
    have fresh_default: "withDefault (optDefault x) ?key obj = ?obj"
      using none Cons.prems(5) plain giv by (rule withDefault_fresh)
    have step: "checkOptions (x # xs) obj = checkOptions xs ?obj"
      using True opt undef fresh_default
      by (cases "optChoices x")
         (auto simp: takesValue_def Let_def validateChoices_undefined)
    have fresh: "\<forall>opt\<in>set xs. takesValue (optKind opt) \<longrightarrow> optionKey opt \<noteq> ?key"
      using Cons.prems(2) True by (force simp: image_iff)
    have "\<exists>obj'. checkOptions xs ?obj = Inr obj'
      \<and> (\<forall>opt\<in>set xs. takesValue (optKind opt) \<longrightarrow> obj' (optionKey opt) = optDefault opt)
      \<and> (\<forall>k. k \<notin> optionKey ` {opt \<in> set xs. takesValue (optKind opt)} \<longrightarrow> obj' k = ?obj k)"
      using Cons.prems True fresh noproto by (intro Cons.IH) simp_all
    then obtain obj' where o: "checkOptions xs ?obj = Inr obj'"
      "\<forall>opt\<in>set xs. takesValue (optKind opt) \<longrightarrow> obj' (optionKey opt) = optDefault opt"
      "\<forall>k. k \<notin> optionKey ` {opt \<in> set xs. takesValue (optKind opt)} \<longrightarrow> obj' k = ?obj k"
      by blast
    have "?key \<notin> optionKey ` {opt \<in> set xs. takesValue (optKind opt)}"
      using fresh by auto
    with o(3) have head: "obj' ?key = optDefault x" by simp
    have "\<forall>k. k \<notin> optionKey ` {opt \<in> set (x # xs). takesValue (optKind opt)} \<longrightarrow> obj' k = obj k"
    proof (intro allI impI)
      fix k assume k: "k \<notin> optionKey ` {opt \<in> set (x # xs). takesValue (optKind opt)}"
      then have "k \<noteq> ?key" using True by auto
      moreover have "k \<notin> optionKey ` {opt \<in> set xs. takesValue (optKind opt)}"
        using k by auto
      ultimately show "obj' k = obj k" using o(3) by simp
    qed
    with o(1,2) head step show ?thesis by auto
  qed
qed

lemma checkArguments_defaults:
  assumes "\<forall>arg\<in>set as. argOptional arg \<and> given (argDefault arg)"
    and "distinct (map argumentKey as)"
    and "\<forall>arg\<in>set as. obj (argumentKey arg) = None"
    and "\<forall>arg\<in>set as. argumentKey arg \<notin> set objectPrototypeMembers"
    and "obj ''__proto__'' = None"
  shows "\<exists>obj'. checkArguments as obj = Inr obj'
      \<and> (\<forall>arg\<in>set as. obj' (argumentKey arg) = argDefault arg)
      \<and> (\<forall>k. k \<notin> argumentKey ` set as \<longrightarrow> obj' k = obj k)"
  using assms
proof (induction as arbitrary: obj)
  case Nil
  then show ?case by simp
next
  case (Cons x xs)
  let ?key = "argumentKey x"
  let ?obj = "obj(?key := argDefault x)"
  have none: "obj ?key = None" using Cons.prems(3) by simp
  have opt: "argOptional x" and giv: "given (argDefault x)" using Cons.prems(1) by simp_all
  have plain: "?key \<notin> set objectPrototypeMembers" using Cons.prems(4) by simp
  then have noproto: "?key \<noteq> ''__proto__''" using proto_is_member by auto
  have undef: "getProp obj ?key = VUndefined"
    using none Cons.prems(5) plain by (rule getProp_absent)
  have fresh_default: "withDefault (argDefault x) ?key obj = ?obj"
    using none Cons.prems(5) plain giv by (rule withDefault_fresh)
  have step: "checkArguments (x # xs) obj = checkArguments xs ?obj"
    using opt undef fresh_default
    by (cases "argChoices x") (simp_all add: Let_def validateChoices_undefined)
  have fresh: "\<forall>arg\<in>set xs. argumentKey arg \<noteq> ?key"
    using Cons.prems(2) by (force simp: image_iff)
  have "\<exists>obj'. checkArguments xs ?obj = Inr obj'
      \<and> (\<forall>arg\<in>set xs. obj' (argumentKey arg) = argDefault arg)
      \<and> (\<forall>k. k \<notin> argumentKey ` set xs \<longrightarrow> obj' k = ?obj k)"
    using Cons.prems fresh noproto by (intro Cons.IH) simp_all
  then obtain obj' where o: "checkArguments xs ?obj = Inr obj'"
      "\<forall>arg\<in>set xs. obj' (argumentKey arg) = argDefault arg"
      "\<forall>k. k \<notin> argumentKey ` set xs \<longrightarrow> obj' k = ?obj k"
    by blast
  have "?key \<notin> argumentKey ` set xs" using fresh by auto
  with o(3) have head: "obj' ?key = argDefault x" by simp
  have "\<forall>k. k \<notin> argumentKey ` set (x # xs) \<longrightarrow> obj' k = obj k"
    using o(3) by auto
  with o(1,2) head step show ?case by auto
qed

lemma empty_scan: "parseLoop cfg [] 0 0 emptyInput = Some (Inr (Finished emptyInput))"
  by (simp add: parseLoop.simps)

text \<open>
  C9, as the code has it. Take a valid declaration in which every option of kind
  \<open>value\<close>, \<open>inline\<close> or \<open>variadic\<close> and every argument is optional and declares a
  default that is truthy (a list, or a string that is not empty), in which no two such
  options and no two arguments have the same key, and in which none of these keys is the
  name of a member of \<open>Object.prototype\<close>. Parsing no tokens succeeds; the result has
  no unparsed token, gives every such option and every argument its declared default,
  and holds no other key.
\<close>

theorem defaults_on_empty_tokens:
  assumes "validateConfig cfg = Inr ()"
    and "\<forall>opt\<in>set (cfg_options cfg). takesValue (optKind opt) \<longrightarrow> optOptional opt \<and> given (optDefault opt)"
    and "\<forall>arg\<in>set (cfg_arguments cfg). argOptional arg \<and> given (argDefault arg)"
    and "distinct (map optionKey (filter (\<lambda>opt. takesValue (optKind opt)) (cfg_options cfg)))"
    and "distinct (map argumentKey (cfg_arguments cfg))"
    and "\<forall>opt\<in>set (cfg_options cfg). takesValue (optKind opt)
            \<longrightarrow> optionKey opt \<notin> set objectPrototypeMembers"
    and "\<forall>arg\<in>set (cfg_arguments cfg). argumentKey arg \<notin> set objectPrototypeMembers"
  shows "\<exists>r. parseRuntime cfg [] = Some (Inr r) \<and> unparsed r = []
      \<and> (\<forall>opt\<in>set (cfg_options cfg). takesValue (optKind opt) \<longrightarrow> options r (optionKey opt) = optDefault opt)
      \<and> (\<forall>arg\<in>set (cfg_arguments cfg). args r (argumentKey arg) = argDefault arg)
      \<and> dom (options r) = optionKey ` {opt \<in> set (cfg_options cfg). takesValue (optKind opt)}
      \<and> dom (args r) = argumentKey ` set (cfg_arguments cfg)"
proof -
  obtain os where os: "checkOptions (cfg_options cfg) Map.empty = Inr os"
      "\<forall>opt\<in>set (cfg_options cfg). takesValue (optKind opt) \<longrightarrow> os (optionKey opt) = optDefault opt"
      "\<forall>k. k \<notin> optionKey ` {opt \<in> set (cfg_options cfg). takesValue (optKind opt)} \<longrightarrow> os k = None"
    using checkOptions_defaults [OF assms(2) assms(4) _ assms(6), of Map.empty] by auto
  obtain as where as: "checkArguments (cfg_arguments cfg) Map.empty = Inr as"
      "\<forall>arg\<in>set (cfg_arguments cfg). as (argumentKey arg) = argDefault arg"
      "\<forall>k. k \<notin> argumentKey ` set (cfg_arguments cfg) \<longrightarrow> as k = None"
    using checkArguments_defaults [OF assms(3) assms(5) _ assms(7), of Map.empty] by auto
  have run: "parseRuntime cfg [] = Some (Inr \<lparr>args = as, options = os, unparsed = []\<rparr>)"
    using assms(1) os(1) as(1) by (simp add: parseRuntime_def empty_scan) (simp add: emptyInput_def)
  have "dom os = optionKey ` {opt \<in> set (cfg_options cfg). takesValue (optKind opt)}"
  proof (intro set_eqI iffI)
    fix k assume "k \<in> dom os"
    then show "k \<in> optionKey ` {opt \<in> set (cfg_options cfg). takesValue (optKind opt)}"
      using os(3) by (auto simp: dom_def)
  next
    fix k assume "k \<in> optionKey ` {opt \<in> set (cfg_options cfg). takesValue (optKind opt)}"
    then obtain opt where "opt \<in> set (cfg_options cfg)" "takesValue (optKind opt)" "k = optionKey opt"
      by auto
    then show "k \<in> dom os" using os(2) assms(2) by (auto simp: given_def dom_def split: option.splits)
  qed
  moreover have "dom as = argumentKey ` set (cfg_arguments cfg)"
  proof (intro set_eqI iffI)
    fix k assume "k \<in> dom as"
    then show "k \<in> argumentKey ` set (cfg_arguments cfg)"
      using as(3) by (auto simp: dom_def)
  next
    fix k assume "k \<in> argumentKey ` set (cfg_arguments cfg)"
    then obtain arg where "arg \<in> set (cfg_arguments cfg)" "k = argumentKey arg"
      by auto
    then show "k \<in> dom as" using as(2) assms(3) by (auto simp: given_def dom_def split: option.splits)
  qed
  ultimately show ?thesis using run os(2) as(2) by simp
qed


theorem defaults_on_empty_tokens_witness:
  "validateConfig buildCli = Inr ()
   \<and> list_all (\<lambda>opt. takesValue (optKind opt) \<longrightarrow> optOptional opt \<and> given (optDefault opt))
        (cfg_options buildCli)
   \<and> list_all (\<lambda>arg. argOptional arg \<and> given (argDefault arg)) (cfg_arguments buildCli)
   \<and> map optionKey (filter (\<lambda>opt. takesValue (optKind opt)) (cfg_options buildCli))
        = [''mode'', ''tags'']
   \<and> map argumentKey (cfg_arguments buildCli) = [''target'']
   \<and> list_all (\<lambda>key. key \<notin> set objectPrototypeMembers) [''mode'', ''tags'', ''target'']
   \<and> parseRuntime buildCli [] =
        Some (Inr \<lparr>args = [''target'' \<mapsto> VStr ''all''],
                    options = [''mode'' \<mapsto> VStr ''development'',
                               ''tags'' \<mapsto> VArr [''a'', ''zzz'']],
                    unparsed = []\<rparr>)"
  using defaults_on_empty_tokens [of buildCli]
  by (simp add: buildCli_def modeOption_def tagsOption_def helpOption_def versionOption_def
        targetArgument_def model_defs)

text \<open>
  C9, as the claim has it, fails: both options are optional and declare a default, and
  both are stored under the key \<open>outDir\<close>. The first default is written; the second
  option then finds a value under its key and keeps it, so it does not get its declared
  default \<open>b\<close>. Three more inputs show what else the statement above needs: a default
  that is the empty string is never written; a command that was given no name is rejected
  before its defaults are looked at; and the default of \<open>--to-string\<close> is never
  written, because its key reads as the method \<open>toString\<close> that every object inherits.
\<close>

theorem defaults_on_empty_tokens_counterexample:
  "validateConfig outDirCli = Inr ()
   \<and> list_all (\<lambda>opt. optKind opt = Value \<and> optOptional opt \<and> given (optDefault opt))
        (cfg_options outDirCli)
   \<and> optionKey (cfg_options outDirCli ! 1) = ''outDir''
   \<and> optDefault (cfg_options outDirCli ! 1) = Some (VStr ''b'')
   \<and> parseRuntime outDirCli [] =
        Some (Inr \<lparr>args = Map.empty, options = [''outDir'' \<mapsto> VStr ''a''], unparsed = []\<rparr>)
   \<and> parseRuntime prefixCli [] =
        Some (Inr \<lparr>args = Map.empty, options = Map.empty, unparsed = []\<rparr>)
   \<and> parseRuntime (namelessCli [modeOption]) [] = Some (Inl CommandNameRequired)
   \<and> parseRuntime (toStringCli True (Some (VStr ''x''))) [] =
        Some (Inr \<lparr>args = Map.empty, options = Map.empty, unparsed = []\<rparr>)"
  by (simp add: outDirCli_def outDirOptions_def prefixCli_def emptyDefaultOption_def
        namelessCli_def toStringCli_def modeOption_def model_defs)

section \<open>The state of the runner\<close>

text \<open>
  C8: the object \<open>input\<close> and the list \<open>commandNames\<close> belong to the module, and
  \<open>runner\<close> only ever adds to them, so a run sees what the runs before it left. The
  same declaration is run twice on the same tokens, starting with the state of a new
  process: in the first run the handler of \<open>git\<close> receives no option, in the second it
  receives the option \<open>message\<close> that the subcommand \<open>commit\<close> stored during the
  first. After a first run of \<open>mycli\<close>, a second run that asks for help shows the usage
  of \<open>mycli mycli\<close>. A run whose subcommand throws has called the handler of the
  command and changed the state before.
\<close>

theorem runs_share_state:
  "runner pristine gitCli [''commit'', ''-m'', ''fix''] =
     Some (\<lparr>mod_input = \<lparr>args = Map.empty, options = [''message'' \<mapsto> VStr ''fix''],
                           unparsed = [''commit'', ''-m'', ''fix'']\<rparr>,
             mod_commandNames = [''git'', ''commit'']\<rparr>,
           [HandlerCall 0 \<lparr>args = Map.empty, options = Map.empty,
                           unparsed = [''commit'', ''-m'', ''fix'']\<rparr>,
            HandlerCall 1 \<lparr>args = Map.empty, options = [''message'' \<mapsto> VStr ''fix''],
                           unparsed = [''commit'', ''-m'', ''fix'']\<rparr>],
           None)
   \<and> runner \<lparr>mod_input = \<lparr>args = Map.empty, options = [''message'' \<mapsto> VStr ''fix''],
                             unparsed = [''commit'', ''-m'', ''fix'']\<rparr>,
               mod_commandNames = [''git'', ''commit'']\<rparr> gitCli [''commit'', ''-m'', ''fix''] =
     Some (\<lparr>mod_input = \<lparr>args = Map.empty, options = [''message'' \<mapsto> VStr ''fix''],
                           unparsed = [''commit'', ''-m'', ''fix'']\<rparr>,
             mod_commandNames = [''git'', ''commit'', ''git'', ''commit'']\<rparr>,
           [HandlerCall 0 \<lparr>args = Map.empty, options = [''message'' \<mapsto> VStr ''fix''],
                           unparsed = [''commit'', ''-m'', ''fix'']\<rparr>,
            HandlerCall 1 \<lparr>args = Map.empty, options = [''message'' \<mapsto> VStr ''fix''],
                           unparsed = [''commit'', ''-m'', ''fix'']\<rparr>],
           None)
   \<and> runner pristine myCli [''in.txt'', ''-o'', ''out''] =
     Some (\<lparr>mod_input = \<lparr>args = [''input'' \<mapsto> VStr ''in.txt''],
                           options = [''output'' \<mapsto> VStr ''out''], unparsed = []\<rparr>,
             mod_commandNames = [''mycli'']\<rparr>,
           [HandlerCall 0 \<lparr>args = [''input'' \<mapsto> VStr ''in.txt''],
                           options = [''output'' \<mapsto> VStr ''out''], unparsed = []\<rparr>],
           None)
   \<and> runner \<lparr>mod_input = \<lparr>args = [''input'' \<mapsto> VStr ''in.txt''],
                             options = [''output'' \<mapsto> VStr ''out''], unparsed = []\<rparr>,
               mod_commandNames = [''mycli'']\<rparr> myCli [''--help''] =
     Some (\<lparr>mod_input = \<lparr>args = [''input'' \<mapsto> VStr ''in.txt''],
                           options = [''output'' \<mapsto> VStr ''out'', ''help'' \<mapsto> VBool True],
                           unparsed = []\<rparr>,
             mod_commandNames = [''mycli'', ''mycli'']\<rparr>,
           [ShowHelp [''mycli'', ''mycli'']],
           None)
   \<and> runner pristine gitCli [''commit''] =
     Some (\<lparr>mod_input = \<lparr>args = Map.empty, options = Map.empty, unparsed = [''commit'']\<rparr>,
             mod_commandNames = [''git'']\<rparr>,
           [HandlerCall 0 \<lparr>args = Map.empty, options = Map.empty, unparsed = [''commit'']\<rparr>],
           Some (RequiredOptionMissing ''--message''))"
  by (simp add: runner.simps pristine_def gitCli_def commitCmd_def pushCmd_def myCli_def
        helpOption_def versionOption_def outputOption_def inputArgument_def
        assignInput_def assignArray_def namesCommand_def model_defs)

end
